theory Spec2Isabelle
  imports Main "HOL-Library.Word" "HOL-Library.Sublist"
begin

section \<open>Program entities consumed from the IR\<close>

text \<open>
  The types of the intermediate representation, as far as \<^verbatim>\<open>ConstraintCollect.cpp\<close>
  inspects them: \<^verbatim>\<open>isPointerTy\<close>, \<^verbatim>\<open>isStructTy\<close>, \<^verbatim>\<open>isSingleValueType\<close>,
  \<^verbatim>\<open>dyn_cast<ArrayType>\<close>, \<^verbatim>\<open>StructType::isOpaque\<close> and \<^verbatim>\<open>getElementType\<close>.
\<close>

datatype ty =
    VoidTy
  | IntegerTy nat
  | FloatTy
  | PointerTy ty
  | VectorTy nat ty
  | ArrayTy nat ty
  | StructTy "ty list"
  | OpaqueStructTy

fun isPointerTy :: "ty \<Rightarrow> bool" where
  "isPointerTy (PointerTy t) = True"
| "isPointerTy t = False"

fun isStructTy :: "ty \<Rightarrow> bool" where
  "isStructTy (StructTy fs) = True"
| "isStructTy OpaqueStructTy = True"
| "isStructTy t = False"

fun isArrayTy :: "ty \<Rightarrow> bool" where
  "isArrayTy (ArrayTy n t) = True"
| "isArrayTy t = False"

fun isSingleValueType :: "ty \<Rightarrow> bool" where
  "isSingleValueType (IntegerTy n) = True"
| "isSingleValueType FloatTy = True"
| "isSingleValueType (PointerTy t) = True"
| "isSingleValueType (VectorTy n t) = True"
| "isSingleValueType t = False"

text \<open>\<^verbatim>\<open>while (const ArrayType* a = dyn_cast<ArrayType>(type)) type = a->getElementType();\<close>\<close>

fun collapseArray :: "ty \<Rightarrow> ty" where
  "collapseArray (ArrayTy n t) = collapseArray t"
| "collapseArray t = t"

text \<open>
  Every \<^verbatim>\<open>assert\<close>, \<^verbatim>\<open>llvm_unreachable\<close> and trap of the source is a value of this
  type: the analysis run is aborted there.
\<close>

datatype error =
    AssertionFailed string
  | Unreachable string
  | DivisionByZero
  | IndexOutOfRange

type_synonym u32 = "32 word"
type_synonym u64 = "64 word"

text \<open>
  The layout provider (\<^verbatim>\<open>llvm::DataLayout\<close> and its \<^verbatim>\<open>StructLayout\<close>) is an external
  collaborator: its three queries are parameters of the model.
\<close>

record dataLayout =
  getTypeAllocSize :: "ty \<Rightarrow> u64"
  getElementContainingOffset :: "ty \<Rightarrow> u64 \<Rightarrow> nat"
  getElementOffset :: "ty \<Rightarrow> nat \<Rightarrow> u64"

text \<open>
  \<^verbatim>\<open>StructInfo\<close>, as the source queries it: \<^verbatim>\<open>isEmpty()\<close>, \<^verbatim>\<open>getExpandedSize()\<close> and
  \<^verbatim>\<open>getOffset(idx)\<close>, the flattened index of field \<^verbatim>\<open>idx\<close>. The analyzer maps a struct
  type to its info; \<open>None\<close> is the null pointer \<^verbatim>\<open>getStructInfo\<close> can return.
\<close>

record structInfo =
  isEmpty :: bool
  getExpandedSize :: nat
  getOffset :: "nat \<Rightarrow> u32"

type_synonym structAnalyzer = "ty \<Rightarrow> structInfo option"

section \<open>The offset resolver \<^verbatim>\<open>getGEPInstFieldNum\<close>\<close>

definition gepWarning :: string where
  "gepWarning = ''Warning: GEP into the middle of a field. This usually occurs when union is used. Since partial alias is not supported, correctness is not guanranteed here.''"

text \<open>
  The \<^verbatim>\<open>while (offset > 0)\<close> loop of \<^verbatim>\<open>getGEPInstFieldNum\<close>, on the loop variables
  \<^verbatim>\<open>offset\<close>, \<^verbatim>\<open>trueElemType\<close> and \<^verbatim>\<open>ret\<close> (both \<^verbatim>\<open>unsigned\<close>, so 32-bit words). The
  result is the field number together with what was written to \<^verbatim>\<open>errs()\<close>.
  \<^verbatim>\<open>offset %= size\<close> is computed in 64 bits and stored back in 32; a zero size traps.
\<close>

function gepFieldLoop ::
  "dataLayout \<Rightarrow> structAnalyzer \<Rightarrow> u32 \<Rightarrow> ty \<Rightarrow> u32 \<Rightarrow> error + (u32 \<times> string list)" where
  "gepFieldLoop DL SA offset trueElemType ret =
     (if offset = 0 then Inr (ret, [])
      else
        let t = collapseArray trueElemType in
        if getTypeAllocSize DL t = 0 then Inl DivisionByZero
        else
          let offset1 = (ucast ((ucast offset :: u64) mod getTypeAllocSize DL t) :: u32) in
          (case t of
             StructTy fs \<Rightarrow>
               let idx = getElementContainingOffset DL t (ucast offset1) in
               (case SA t of
                  None \<Rightarrow> Inl (AssertionFailed ''structInfoMap should have info for all structs!'')
                | Some stInfo \<Rightarrow>
                    if idx < length fs
                    then gepFieldLoop DL SA (offset1 - ucast (getElementOffset DL t idx))
                           (fs ! idx) (ret + getOffset stInfo idx)
                    else Inl IndexOutOfRange)
           | OpaqueStructTy \<Rightarrow> Inl (AssertionFailed ''Cannot getTypeInfo() on a type that is unsized!'')
           | _ \<Rightarrow>
               if offset1 \<noteq> 0 then Inr (ret, [gepWarning])
               else gepFieldLoop DL SA offset1 t ret))"
  by pat_completeness auto

lemma size_nth_field: "idx < length fs \<Longrightarrow> size (fs ! idx) < Suc (size_list size fs)"
proof -
  assume "idx < length fs"
  then have "fs ! idx \<in> set fs" by (rule nth_mem)
  then have "size (fs ! idx) \<le> size_list size fs"
    by (rule size_list_estimation') simp
  then show ?thesis by simp
qed

lemma size_collapseArray: "size (collapseArray t) \<le> size t"
  by (induction t rule: collapseArray.induct) auto

lemma size_struct_field:
  "collapseArray t = StructTy fs \<Longrightarrow> idx < length fs \<Longrightarrow> size (fs ! idx) < size t"
  using size_nth_field [of idx fs] size_collapseArray [of t] by simp

termination gepFieldLoop
  by (relation "measure (\<lambda>(DL, SA, offset, t, ret). if offset = 0 then 0 else Suc (size t))")
     (auto simp: size_struct_field)

declare gepFieldLoop.simps [simp del]

section \<open>Nodes, constraints and the build context\<close>

text \<open>
  A program value, as the node factory keys it: a global variable, a function, a formal
  argument (function name and position) or an instruction (function name and position).
\<close>

datatype vref =
    GlobalV string
  | FuncV string
  | ArgV string nat
  | InstV string nat

datatype constraintType = ADDR_OF | COPY | LOAD | STORE

text \<open>\<^verbatim>\<open>AndersConstraint(type, dest, src [, offset])\<close>\<close>

datatype constraint = AndersConstraint constraintType nat nat "u32 option"

datatype nodeType = VALUE_NODE | OBJ_NODE

text \<open>
  The state of the pass: the node table and lookup maps of \<^verbatim>\<open>nodeFactory\<close>, the
  \<^verbatim>\<open>constraints\<close> vector, and the lines written to \<^verbatim>\<open>errs()\<close>. A lookup that returns
  \<^verbatim>\<open>InvalidIndex\<close> in the source is \<open>None\<close> here.
\<close>

record andersen =
  nodes :: "nodeType list"
  valueNodeMap :: "vref \<rightharpoonup> nat"
  objNodeMap :: "vref \<rightharpoonup> nat"
  returnMap :: "string \<rightharpoonup> nat"
  varargMap :: "string \<rightharpoonup> nat"
  constraints :: "constraint list"
  errs :: "string list"

text \<open>
  Modelled from the spec: the node factory (\<^verbatim>\<open>NodeFactory\<close>, declared in
  \<^verbatim>\<open>Andersen.h\<close>) is not among the sources. Section 3 reserves four singleton nodes;
  Section 6 makes the \<^verbatim>\<open>create*\<close> operations idempotent per program entity and the
  \<^verbatim>\<open>lookup*\<close> operations plain lookups; an aggregate's fields are consecutive object
  indices, so \<^verbatim>\<open>getOffsetObjectNode(n, i)\<close> is the node \<open>i\<close> places after \<open>n\<close>.
  A node's role is value or object; return and vararg nodes hold the points-to set of a
  program value and are value nodes here. Node indices are natural numbers: the table
  never comes near the range of \<^verbatim>\<open>unsigned\<close>.
\<close>

definition getUniversalPtrNode :: nat where "getUniversalPtrNode = 0"
definition getUniversalObjNode :: nat where "getUniversalObjNode = 1"
definition getNullPtrNode :: nat where "getNullPtrNode = 2"
definition getNullObjectNode :: nat where "getNullObjectNode = 3"

definition initialState :: andersen where
  "initialState = \<lparr> nodes = [VALUE_NODE, OBJ_NODE, VALUE_NODE, OBJ_NODE],
     valueNodeMap = Map.empty, objNodeMap = Map.empty, returnMap = Map.empty,
     varargMap = Map.empty, constraints = [], errs = [] \<rparr>"

definition createValueNode :: "vref \<Rightarrow> andersen \<Rightarrow> nat \<times> andersen" where
  "createValueNode v s =
     (case valueNodeMap s v of
        Some n \<Rightarrow> (n, s)
      | None \<Rightarrow> (length (nodes s),
          s\<lparr>nodes := nodes s @ [VALUE_NODE],
            valueNodeMap := (valueNodeMap s)(v \<mapsto> length (nodes s))\<rparr>))"

definition createObjectNode :: "vref \<Rightarrow> andersen \<Rightarrow> nat \<times> andersen" where
  "createObjectNode v s =
     (case objNodeMap s v of
        Some n \<Rightarrow> (n, s)
      | None \<Rightarrow> (length (nodes s),
          s\<lparr>nodes := nodes s @ [OBJ_NODE],
            objNodeMap := (objNodeMap s)(v \<mapsto> length (nodes s))\<rparr>))"

text \<open>\<^verbatim>\<open>createObjectNode()\<close> without an entity: a fresh anonymous object node.\<close>

definition createObjectNodeAnon :: "andersen \<Rightarrow> nat \<times> andersen" where
  "createObjectNodeAnon s = (length (nodes s), s\<lparr>nodes := nodes s @ [OBJ_NODE]\<rparr>)"

definition createReturnNode :: "string \<Rightarrow> andersen \<Rightarrow> nat \<times> andersen" where
  "createReturnNode f s =
     (case returnMap s f of
        Some n \<Rightarrow> (n, s)
      | None \<Rightarrow> (length (nodes s),
          s\<lparr>nodes := nodes s @ [VALUE_NODE],
            returnMap := (returnMap s)(f \<mapsto> length (nodes s))\<rparr>))"

definition createVarargNode :: "string \<Rightarrow> andersen \<Rightarrow> nat \<times> andersen" where
  "createVarargNode f s =
     (case varargMap s f of
        Some n \<Rightarrow> (n, s)
      | None \<Rightarrow> (length (nodes s),
          s\<lparr>nodes := nodes s @ [VALUE_NODE],
            varargMap := (varargMap s)(f \<mapsto> length (nodes s))\<rparr>))"

definition getValueNodeFor :: "andersen \<Rightarrow> vref \<Rightarrow> nat option" where
  "getValueNodeFor s v = valueNodeMap s v"

definition getObjectNodeFor :: "andersen \<Rightarrow> vref \<Rightarrow> nat option" where
  "getObjectNodeFor s v = objNodeMap s v"

definition getReturnNodeFor :: "andersen \<Rightarrow> string \<Rightarrow> nat option" where
  "getReturnNodeFor s f = returnMap s f"

definition getVarargNodeFor :: "andersen \<Rightarrow> string \<Rightarrow> nat option" where
  "getVarargNodeFor s f = varargMap s f"

definition getOffsetObjectNode :: "nat \<Rightarrow> nat \<Rightarrow> nat" where
  "getOffsetObjectNode n i = n + i"

text \<open>\<^verbatim>\<open>constraints.emplace_back(...)\<close>\<close>

definition emplace_back :: "constraint \<Rightarrow> andersen \<Rightarrow> andersen" where
  "emplace_back c s = s\<lparr>constraints := constraints s @ [c]\<rparr>"

text \<open>\<^verbatim>\<open>NodeIndex n = lookup(...); assert(n != InvalidIndex && msg);\<close>\<close>

fun found :: "nat option \<Rightarrow> string \<Rightarrow> error + nat" where
  "found None msg = Inl (AssertionFailed msg)"
| "found (Some n) msg = Inr n"

section \<open>Globals and their initializers\<close>

text \<open>
  The constants an initializer is made of, by the classes the source tests with
  \<^verbatim>\<open>isa<>\<close>. A \<open>GlobalValue\<close> is the address of a global variable or function used as
  a pointer constant. \<^verbatim>\<open>ConstantDataSequential\<close> keeps its elements as raw data and has
  no operands.
\<close>

datatype Constant =
    ConstantInt ty int
  | GlobalValue ty vref
  | ConstantAggregateZero ty
  | UndefValue ty
  | ConstantArray ty "Constant list"
  | ConstantDataSequential ty
  | ConstantStruct ty "Constant list"
  | ConstantExpr ty

fun getType :: "Constant \<Rightarrow> ty" where
  "getType (ConstantInt t n) = t"
| "getType (GlobalValue t v) = t"
| "getType (ConstantAggregateZero t) = t"
| "getType (UndefValue t) = t"
| "getType (ConstantArray t cs) = t"
| "getType (ConstantDataSequential t) = t"
| "getType (ConstantStruct t cs) = t"
| "getType (ConstantExpr t) = t"

text \<open>\<^verbatim>\<open>Constant::isNullValue\<close>: integer zero and \<^verbatim>\<open>ConstantAggregateZero\<close>.\<close>

fun isNullValue :: "Constant \<Rightarrow> bool" where
  "isNullValue (ConstantInt t n) = (n = 0)"
| "isNullValue (ConstantAggregateZero t) = True"
| "isNullValue c = False"

fun isUndefValue :: "Constant \<Rightarrow> bool" where
  "isUndefValue (UndefValue t) = True"
| "isUndefValue c = False"

text \<open>
  Modelled from the spec: \<^verbatim>\<open>getObjectNodeForConstant\<close> belongs to the absent node
  factory. Section 4.2: a scalar pointer value resolves to the object node of the
  constant it references; here that is the object node of the referenced global.
\<close>

fun getObjectNodeForConstant :: "andersen \<Rightarrow> Constant \<Rightarrow> nat option" where
  "getObjectNodeForConstant s (GlobalValue t v) = getObjectNodeFor s v"
| "getObjectNodeForConstant s c = None"

record globalVariable =
  gname :: string
  valueType :: ty
  definitiveInitializer :: "Constant option"

text \<open>The loop \<^verbatim>\<open>for (unsigned i = 1; i < stSize; ++i) nodeFactory.createObjectNode();\<close>\<close>

function createFieldNodes :: "nat \<Rightarrow> nat \<Rightarrow> andersen \<Rightarrow> andersen" where
  "createFieldNodes i stSize s =
     (if i < stSize then createFieldNodes (i + 1) stSize (snd (createObjectNodeAnon s)) else s)"
  by pat_completeness auto
termination
  by (relation "measure (\<lambda>(i, stSize, s). stSize - i)") auto

declare createFieldNodes.simps [simp del]

definition processStruct :: "structAnalyzer \<Rightarrow> vref \<Rightarrow> ty \<Rightarrow> andersen \<Rightarrow> error + andersen" where
  "processStruct SA v stType s =
     (if stType = OpaqueStructTy then Inl (AssertionFailed ''Opaque type not supported'')
      else case SA stType of
        None \<Rightarrow> Inl (AssertionFailed ''structInfoMap should have info for all structs!'')
      | Some stInfo \<Rightarrow>
          if isEmpty stInfo then
            (let (ptr, s1) = createValueNode v s
             in Inr (emplace_back (AndersConstraint ADDR_OF ptr getNullObjectNode None) s1))
          else
            (let stSize = getExpandedSize stInfo;
                 (ptr, s1) = createValueNode v s;
                 (obj, s2) = createObjectNode v s1;
                 s3 = createFieldNodes 1 stSize s2
             in Inr (emplace_back (AndersConstraint ADDR_OF ptr obj None) s3)))"

text \<open>
  \<^verbatim>\<open>addGlobalInitializerConstraints\<close>, with its two operand loops: the array loop
  passes the same \<open>objNode\<close> to every element, the struct loop passes
  \<^verbatim>\<open>getOffsetObjectNode(objNode, i)\<close> for operand \<open>i\<close>.
\<close>

fun addGlobalInitializerConstraints ::
      "structAnalyzer \<Rightarrow> nat \<Rightarrow> Constant \<Rightarrow> andersen \<Rightarrow> error + andersen"
  and initArrayOperands ::
      "structAnalyzer \<Rightarrow> nat \<Rightarrow> Constant list \<Rightarrow> andersen \<Rightarrow> error + andersen"
  and initStructOperands ::
      "structAnalyzer \<Rightarrow> nat \<Rightarrow> nat \<Rightarrow> Constant list \<Rightarrow> andersen \<Rightarrow> error + andersen"
where
  "addGlobalInitializerConstraints SA objNode c s =
     (if isSingleValueType (getType c) then
        (if isPointerTy (getType c) then
           (case found (getObjectNodeForConstant s c) ''rhs node not found'' of
              Inl e \<Rightarrow> Inl e
            | Inr rhsNode \<Rightarrow> Inr (emplace_back (AndersConstraint ADDR_OF objNode rhsNode None) s))
         else Inr s)
      else if isNullValue c then
        Inr (emplace_back (AndersConstraint COPY objNode getNullObjectNode None) s)
      else if \<not> isUndefValue c then
        (case c of
           ConstantArray t ops \<Rightarrow> initArrayOperands SA objNode ops s
         | ConstantDataSequential t \<Rightarrow> Inr s
         | ConstantStruct t ops \<Rightarrow>
             (case SA t of
                None \<Rightarrow> Inl (AssertionFailed ''structInfoMap should have info for all structs!'')
              | Some stInfo \<Rightarrow> initStructOperands SA objNode 0 ops s)
         | _ \<Rightarrow> Inl (Unreachable ''Unexpected global initializer''))
      else Inr s)"
| "initArrayOperands SA objNode [] s = Inr s"
| "initArrayOperands SA objNode (c # cs) s =
     (case addGlobalInitializerConstraints SA objNode c s of
        Inl e \<Rightarrow> Inl e
      | Inr s' \<Rightarrow> initArrayOperands SA objNode cs s')"
| "initStructOperands SA objNode i [] s = Inr s"
| "initStructOperands SA objNode i (cv # cs) s =
     (case addGlobalInitializerConstraints SA (getOffsetObjectNode objNode i) cv s of
        Inl e \<Rightarrow> Inl e
      | Inr s' \<Rightarrow> initStructOperands SA objNode (i + 1) cs s')"

section \<open>Functions, instructions and the module\<close>

record func =
  fname :: string
  isDeclaration :: bool
  isIntrinsic :: bool
  returnType :: ty
  isVarArg :: bool
  formals :: "ty list"
  hasAddressTaken :: bool

datatype opcode =
    Alloca | Call | Invoke | Ret | Load | Store | GetElementPtr | PHI | BitCast | IntToPtr
  | Select | VAArg | ExtractValue | InsertValue | LandingPad | Resume | AtomicRMW
  | AtomicCmpXchg | OtherOp

text \<open>
  An instruction, by what the translator reads of it: its identity as a value, its opcode,
  its own type (\<^verbatim>\<open>inst->getType()\<close>), and its operands with their types. For a call or
  invoke the operands are the actual arguments (\<^verbatim>\<open>cs.arg_begin()\<close> to \<^verbatim>\<open>cs.arg_end()\<close>)
  and \<open>calledFunction\<close> is \<^verbatim>\<open>cs.getCalledFunction()\<close>, \<open>None\<close> for an indirect call.
  For a pointer-arithmetic instruction, \<open>gepOffset\<close> is the result of the helper
  \<^verbatim>\<open>getGEPOffset\<close> (of \<^verbatim>\<open>Helper.h\<close>, not among the sources) and \<open>gepBaseElemType\<close> the
  pointee type of \<^verbatim>\<open>GetUnderlyingObject\<close> of the pointer operand.
\<close>

record instruction =
  self :: vref
  opcode :: opcode
  instType :: ty
  operands :: "(vref \<times> ty) list"
  calledFunction :: "func option"
  gepOffset :: u32
  gepBaseElemType :: ty

record Module =
  getGlobalList :: "globalVariable list"
  getFunctionList :: "(func \<times> instruction list) list"

text \<open>\<^verbatim>\<open>inst->getOperand(i)\<close>; the IR library asserts that \<open>i\<close> is in range.\<close>

definition getOperand :: "instruction \<Rightarrow> nat \<Rightarrow> error + (vref \<times> ty)" where
  "getOperand inst i =
     (if i < length (operands inst) then Inr (operands inst ! i) else Inl IndexOutOfRange)"

datatype libFunc =
    LibFunc_malloc | LibFunc_valloc | LibFunc_calloc | LibFunc_realloc | LibFunc_reallocf
  | LibFunc_Znwj | LibFunc_ZnwjRKSt9nothrow_t | LibFunc_Znwm | LibFunc_ZnwmRKSt9nothrow_t
  | LibFunc_Znaj | LibFunc_ZnajRKSt9nothrow_t | LibFunc_Znam | LibFunc_ZnamRKSt9nothrow_t
  | LibFunc_strdup | LibFunc_strndup | LibFunc_memalign | LibFunc_posix_memalign
  | LibFunc_other string

text \<open>\<^verbatim>\<open>TargetLibraryInfo::getLibFunc(name, F)\<close>: the library function a name denotes, if any.\<close>

type_synonym targetLibraryInfo = "string \<Rightarrow> libFunc option"

text \<open>
  What the pass takes from its collaborators: the layout provider, the struct analyzer
  (after \<^verbatim>\<open>structAnalyzer.run(M)\<close>), the member \<^verbatim>\<open>tli\<close> (a pointer, possibly null), and
  the table of modelled external routines \<^verbatim>\<open>addConstraintForExternalLibrary\<close>, which
  answers whether it handled the call and leaves the state it built.
\<close>

record externals =
  theDataLayout :: dataLayout
  theStructAnalyzer :: structAnalyzer
  tli :: "targetLibraryInfo option"
  addConstraintForExternalLibrary :: "instruction \<Rightarrow> andersen \<Rightarrow> error + (bool \<times> andersen)"

section \<open>Global declarations and initialisation: \<^verbatim>\<open>collectConstraintsForGlobals\<close>\<close>

text \<open>The first loop: value and object nodes for every global variable.\<close>

fun declareGlobals :: "structAnalyzer \<Rightarrow> globalVariable list \<Rightarrow> andersen \<Rightarrow> error + andersen" where
  "declareGlobals SA [] s = Inr s"
| "declareGlobals SA (globalVal # gs) s =
     (let type = collapseArray (valueType globalVal) in
      if isStructTy type then
        (case processStruct SA (GlobalV (gname globalVal)) type s of
           Inl e \<Rightarrow> Inl e
         | Inr s' \<Rightarrow> declareGlobals SA gs s')
      else
        (let (gVal, s1) = createValueNode (GlobalV (gname globalVal)) s;
             (gObj, s2) = createObjectNode (GlobalV (gname globalVal)) s1
         in declareGlobals SA gs (emplace_back (AndersConstraint ADDR_OF gVal gObj None) s2)))"

text \<open>The second loop: value and object nodes for every address-taken function.\<close>

fun declareFunctions :: "func list \<Rightarrow> andersen \<Rightarrow> andersen" where
  "declareFunctions [] s = s"
| "declareFunctions (f # fs) s =
     (if hasAddressTaken f then
        (let (fVal, s1) = createValueNode (FuncV (fname f)) s;
             (fObj, s2) = createObjectNode (FuncV (fname f)) s1
         in declareFunctions fs (emplace_back (AndersConstraint ADDR_OF fVal fObj None) s2))
      else declareFunctions fs s)"

text \<open>The third loop: the contents of every global's object.\<close>

fun initGlobals :: "structAnalyzer \<Rightarrow> globalVariable list \<Rightarrow> andersen \<Rightarrow> error + andersen" where
  "initGlobals SA [] s = Inr s"
| "initGlobals SA (globalVal # gs) s =
     (case getObjectNodeFor s (GlobalV (gname globalVal)) of
        None \<Rightarrow> initGlobals SA gs s
      | Some gObj \<Rightarrow>
          (case definitiveInitializer globalVal of
             Some init \<Rightarrow>
               (case addGlobalInitializerConstraints SA gObj init s of
                  Inl e \<Rightarrow> Inl e
                | Inr s' \<Rightarrow> initGlobals SA gs s')
           | None \<Rightarrow>
               initGlobals SA gs
                 (emplace_back (AndersConstraint COPY gObj getUniversalObjNode None) s)))"

definition collectConstraintsForGlobals :: "externals \<Rightarrow> Module \<Rightarrow> andersen \<Rightarrow> error + andersen" where
  "collectConstraintsForGlobals X M s =
     (case declareGlobals (theStructAnalyzer X) (getGlobalList M) s of
        Inl e \<Rightarrow> Inl e
      | Inr s1 \<Rightarrow>
          initGlobals (theStructAnalyzer X) (getGlobalList M)
            (declareFunctions (map fst (getFunctionList M)) s1))"

section \<open>Call resolution\<close>

definition AllocationFns :: "libFunc list" where
  "AllocationFns =
     [LibFunc_malloc, LibFunc_valloc, LibFunc_calloc, LibFunc_realloc, LibFunc_reallocf,
      LibFunc_Znwj, LibFunc_ZnwjRKSt9nothrow_t,
      LibFunc_Znwm, LibFunc_ZnwmRKSt9nothrow_t,
      LibFunc_Znaj, LibFunc_ZnajRKSt9nothrow_t,
      LibFunc_Znam, LibFunc_ZnamRKSt9nothrow_t,
      LibFunc_strdup, LibFunc_strndup,
      LibFunc_memalign, LibFunc_posix_memalign]"

definition isMallocCall :: "instruction \<Rightarrow> targetLibraryInfo option \<Rightarrow> bool" where
  "isMallocCall cs t =
     (case calledFunction cs of
        None \<Rightarrow> False
      | Some callee \<Rightarrow>
          if \<not> isDeclaration callee then False
          else (case t of
                  None \<Rightarrow> False
                | Some getLibFunc \<Rightarrow>
                    (case getLibFunc (fname callee) of
                       None \<Rightarrow> False
                     | Some tliFunc \<Rightarrow> List.member AllocationFns tliFunc)))"

text \<open>
  \<^verbatim>\<open>addArgumentConstraintForCall\<close>, first loop: formals and actuals in lockstep, until
  either runs out. The result carries the actuals not yet visited.
\<close>

fun bindFormals ::
  "string \<Rightarrow> nat \<Rightarrow> ty list \<Rightarrow> (vref \<times> ty) list \<Rightarrow> andersen
     \<Rightarrow> error + ((vref \<times> ty) list \<times> andersen)" where
  "bindFormals fn i [] actuals s = Inr (actuals, s)"
| "bindFormals fn i (formalTy # fs) [] s = Inr ([], s)"
| "bindFormals fn i (formalTy # fs) ((actual, actualTy) # as) s =
     (if isPointerTy formalTy then
        (case found (getValueNodeFor s (ArgV fn i)) ''Failed to find formal arg node!'' of
           Inl e \<Rightarrow> Inl e
         | Inr fIndex \<Rightarrow>
             if isPointerTy actualTy then
               (case found (getValueNodeFor s actual) ''Failed to find actual arg node!'' of
                  Inl e \<Rightarrow> Inl e
                | Inr aIndex \<Rightarrow>
                    bindFormals fn (i + 1) fs as
                      (emplace_back (AndersConstraint COPY fIndex aIndex None) s))
             else
               bindFormals fn (i + 1) fs as
                 (emplace_back (AndersConstraint COPY fIndex getUniversalPtrNode None) s))
      else bindFormals fn (i + 1) fs as s)"

text \<open>Second loop, for a variadic callee: the remaining actuals flow into the vararg node.\<close>

fun bindVarargs :: "string \<Rightarrow> (vref \<times> ty) list \<Rightarrow> andersen \<Rightarrow> error + andersen" where
  "bindVarargs fn [] s = Inr s"
| "bindVarargs fn ((actual, actualTy) # as) s =
     (if isPointerTy actualTy then
        (case found (getValueNodeFor s actual) ''Failed to find actual arg node!'' of
           Inl e \<Rightarrow> Inl e
         | Inr aIndex \<Rightarrow>
             (case found (getVarargNodeFor s fn) ''Failed to find vararg node!'' of
                Inl e \<Rightarrow> Inl e
              | Inr vaIndex \<Rightarrow>
                  bindVarargs fn as (emplace_back (AndersConstraint COPY vaIndex aIndex None) s)))
      else bindVarargs fn as s)"

definition addArgumentConstraintForCall :: "instruction \<Rightarrow> func \<Rightarrow> andersen \<Rightarrow> error + andersen" where
  "addArgumentConstraintForCall cs f s =
     (case bindFormals (fname f) 0 (formals f) (operands cs) s of
        Inl e \<Rightarrow> Inl e
      | Inr (rest, s') \<Rightarrow> if isVarArg f then bindVarargs (fname f) rest s' else Inr s')"

text \<open>
  The argument loop of the unresolved-external branch: for each actual, look its value
  node up, assert that it exists, and copy the Universal Pointer into it.
\<close>

fun ruinActuals :: "(vref \<times> ty) list \<Rightarrow> andersen \<Rightarrow> error + andersen" where
  "ruinActuals [] s = Inr s"
| "ruinActuals ((actual, actualTy) # as) s =
     (case found (getValueNodeFor s actual) ''Failed to find arg node!'' of
        Inl e \<Rightarrow> Inl e
      | Inr argIndex \<Rightarrow>
          ruinActuals as (emplace_back (AndersConstraint COPY argIndex getUniversalPtrNode None) s))"

text \<open>
  \<^verbatim>\<open>if (cs.getType()->isPointerTy()) { retIndex = getValueNodeFor(cs.getInstruction());
  assert(...); constraints.emplace_back(COPY, retIndex, getUniversalPtrNode()); }\<close>,
  as it stands in the unresolved-external and in the indirect branch.
\<close>

definition copyUniversalToResult :: "instruction \<Rightarrow> andersen \<Rightarrow> error + andersen" where
  "copyUniversalToResult cs s =
     (if isPointerTy (instType cs) then
        (case found (getValueNodeFor s (self cs)) ''Failed to find ret node!'' of
           Inl e \<Rightarrow> Inl e
         | Inr retIndex \<Rightarrow>
             Inr (emplace_back (AndersConstraint COPY retIndex getUniversalPtrNode None) s))
      else Inr s)"

text \<open>The loop over the functions of the module in the indirect branch.\<close>

fun bindCandidates :: "func list \<Rightarrow> instruction \<Rightarrow> andersen \<Rightarrow> error + andersen" where
  "bindCandidates [] cs s = Inr s"
| "bindCandidates (f # fs) cs s =
     (case getValueNodeFor s (FuncV (fname f)) of
        None \<Rightarrow> bindCandidates fs cs s
      | Some funPtrIndex \<Rightarrow>
          if \<not> isVarArg f \<and> length (formals f) \<noteq> length (operands cs)
          then bindCandidates fs cs s
          else (case addArgumentConstraintForCall cs f s of
                  Inl e \<Rightarrow> Inl e
                | Inr s' \<Rightarrow> bindCandidates fs cs s'))"

definition addConstraintForCall ::
  "externals \<Rightarrow> func list \<Rightarrow> instruction \<Rightarrow> andersen \<Rightarrow> error + andersen" where
  "addConstraintForCall X moduleFuncs cs s =
     (case calledFunction cs of
        Some f \<Rightarrow>
          if isDeclaration f \<or> isIntrinsic f then
            (case addConstraintForExternalLibrary X cs s of
               Inl e \<Rightarrow> Inl e
             | Inr (handled, s0) \<Rightarrow>
                 if handled then Inr s0
                 else
                   (case copyUniversalToResult cs
                           (s0\<lparr>errs := errs s0 @ [''Unresolved ext function: '' @ fname f]\<rparr>) of
                      Inl e \<Rightarrow> Inl e
                    | Inr s1 \<Rightarrow>
                        (case ruinActuals (operands cs) s1 of
                           Inl e \<Rightarrow> Inl e
                         | Inr s2 \<Rightarrow> addArgumentConstraintForCall cs f s2)))
          else
            (case (if isPointerTy (instType cs) then
                     (case found (getValueNodeFor s (self cs)) ''Failed to find ret node!'' of
                        Inl e \<Rightarrow> Inl e
                      | Inr retIndex \<Rightarrow>
                          (case found (getReturnNodeFor s (fname f))
                                  ''Failed to find function ret node!'' of
                             Inl e \<Rightarrow> Inl e
                           | Inr fRetIndex \<Rightarrow>
                               Inr (emplace_back (AndersConstraint COPY retIndex fRetIndex None) s)))
                   else Inr s) of
               Inl e \<Rightarrow> Inl e
             | Inr s1 \<Rightarrow> addArgumentConstraintForCall cs f s1)
      | None \<Rightarrow>
          (case copyUniversalToResult cs s of
             Inl e \<Rightarrow> Inl e
           | Inr s1 \<Rightarrow> bindCandidates moduleFuncs cs s1))"

section \<open>The instruction translator\<close>

definition getGEPInstFieldNum ::
  "instruction \<Rightarrow> dataLayout \<Rightarrow> structAnalyzer \<Rightarrow> error + (u32 \<times> string list)" where
  "getGEPInstFieldNum gepInst DL SA =
     gepFieldLoop DL SA (gepOffset gepInst) (gepBaseElemType gepInst) 0"

text \<open>The loop over the incoming values of a merge node.\<close>

fun copyIncoming :: "nat \<Rightarrow> (vref \<times> ty) list \<Rightarrow> andersen \<Rightarrow> error + andersen" where
  "copyIncoming dstIndex [] s = Inr s"
| "copyIncoming dstIndex ((v, t) # vs) s =
     (case found (getValueNodeFor s v) ''Failed to find phi src node'' of
        Inl e \<Rightarrow> Inl e
      | Inr srcIndex \<Rightarrow>
          copyIncoming dstIndex vs (emplace_back (AndersConstraint COPY dstIndex srcIndex None) s))"

text \<open>
  \<^verbatim>\<open>collectConstraintsForInstruction\<close>: one case per opcode, in the order of the
  \<^verbatim>\<open>switch\<close>. \<open>parent\<close> is \<^verbatim>\<open>inst->getParent()->getParent()\<close> and \<open>moduleFuncs\<close> the
  functions of its module.
\<close>

definition collectConstraintsForInstruction ::
  "externals \<Rightarrow> func list \<Rightarrow> func \<Rightarrow> instruction \<Rightarrow> andersen \<Rightarrow> error + andersen" where
  "collectConstraintsForInstruction X moduleFuncs parent inst s =
     (case opcode inst of
        Alloca \<Rightarrow>
          (let (valNode, s1) = createValueNode (self inst) s;
               (objNode, s2) = createObjectNode (self inst) s1
           in Inr (emplace_back (AndersConstraint ADDR_OF valNode objNode None) s2))
      | Call \<Rightarrow>
          if isMallocCall inst (tli X) then
            (case found (getValueNodeFor s (self inst)) ''Failed to find malloc-call value node'' of
               Inl e \<Rightarrow> Inl e
             | Inr ptrIndex \<Rightarrow>
                 (let (objIndex, s1) = createObjectNode (self inst) s
                  in Inr (emplace_back (AndersConstraint ADDR_OF ptrIndex objIndex None) s1)))
          else addConstraintForCall X moduleFuncs inst s
      | Invoke \<Rightarrow>
          if isMallocCall inst (tli X) then
            (case found (getValueNodeFor s (self inst)) ''Failed to find malloc-call value node'' of
               Inl e \<Rightarrow> Inl e
             | Inr ptrIndex \<Rightarrow>
                 (let (objIndex, s1) = createObjectNode (self inst) s
                  in Inr (emplace_back (AndersConstraint ADDR_OF ptrIndex objIndex None) s1)))
          else addConstraintForCall X moduleFuncs inst s
      | Ret \<Rightarrow>
          if operands inst \<noteq> [] \<and> isPointerTy (snd (hd (operands inst))) then
            (case found (getReturnNodeFor s (fname parent)) ''Failed to find return node'' of
               Inl e \<Rightarrow> Inl e
             | Inr retIndex \<Rightarrow>
                 (case found (getValueNodeFor s (fst (hd (operands inst))))
                         ''Failed to find return value node'' of
                    Inl e \<Rightarrow> Inl e
                  | Inr valIndex \<Rightarrow>
                      Inr (emplace_back (AndersConstraint COPY retIndex valIndex None) s)))
          else Inr s
      | Load \<Rightarrow>
          if isPointerTy (instType inst) then
            (case getOperand inst 0 of
               Inl e \<Rightarrow> Inl e
             | Inr (op0, t0) \<Rightarrow>
                 (case found (getValueNodeFor s op0) ''Failed to find load operand node'' of
                    Inl e \<Rightarrow> Inl e
                  | Inr opIndex \<Rightarrow>
                      (case found (getValueNodeFor s (self inst)) ''Failed to find load value node'' of
                         Inl e \<Rightarrow> Inl e
                       | Inr valIndex \<Rightarrow>
                           Inr (emplace_back (AndersConstraint LOAD valIndex opIndex None) s))))
          else Inr s
      | Store \<Rightarrow>
          if isPointerTy (instType inst) then
            (case getOperand inst 0 of
               Inl e \<Rightarrow> Inl e
             | Inr (op0, t0) \<Rightarrow>
                 (case found (getValueNodeFor s op0) ''Failed to find store src node'' of
                    Inl e \<Rightarrow> Inl e
                  | Inr srcIndex \<Rightarrow>
                      (case getOperand inst 1 of
                         Inl e \<Rightarrow> Inl e
                       | Inr (op1, t1) \<Rightarrow>
                           (case found (getValueNodeFor s op1) ''Failed to find store dst node'' of
                              Inl e \<Rightarrow> Inl e
                            | Inr dstIndex \<Rightarrow>
                                Inr (emplace_back (AndersConstraint STORE dstIndex srcIndex None) s)))))
          else Inr s
      | GetElementPtr \<Rightarrow>
          if \<not> isPointerTy (instType inst) then Inl (AssertionFailed ''inst->getType()->isPointerTy()'')
          else
            (case getOperand inst 0 of
               Inl e \<Rightarrow> Inl e
             | Inr (op0, t0) \<Rightarrow>
                 (case found (getValueNodeFor s op0) ''Failed to find gep src node'' of
                    Inl e \<Rightarrow> Inl e
                  | Inr srcIndex \<Rightarrow>
                      (case found (getValueNodeFor s (self inst)) ''Failed to find gep dst node'' of
                         Inl e \<Rightarrow> Inl e
                       | Inr dstIndex \<Rightarrow>
                           (case getGEPInstFieldNum inst (theDataLayout X) (theStructAnalyzer X) of
                              Inl e \<Rightarrow> Inl e
                            | Inr (fieldNum, diagnostics) \<Rightarrow>
                                Inr (emplace_back
                                       (AndersConstraint STORE dstIndex srcIndex (Some fieldNum))
                                       (s\<lparr>errs := errs s @ diagnostics\<rparr>))))))
      | PHI \<Rightarrow>
          if isPointerTy (instType inst) then
            (case found (getValueNodeFor s (self inst)) ''Failed to find phi dst node'' of
               Inl e \<Rightarrow> Inl e
             | Inr dstIndex \<Rightarrow> copyIncoming dstIndex (operands inst) s)
          else Inr s
      | BitCast \<Rightarrow>
          if isPointerTy (instType inst) then
            (case getOperand inst 0 of
               Inl e \<Rightarrow> Inl e
             | Inr (op0, t0) \<Rightarrow>
                 (case found (getValueNodeFor s op0) ''Failed to find bitcast src node'' of
                    Inl e \<Rightarrow> Inl e
                  | Inr srcIndex \<Rightarrow>
                      (case found (getValueNodeFor s (self inst)) ''Failed to find bitcast dst node'' of
                         Inl e \<Rightarrow> Inl e
                       | Inr dstIndex \<Rightarrow>
                           Inr (emplace_back (AndersConstraint COPY dstIndex srcIndex None) s))))
          else Inr s
      | IntToPtr \<Rightarrow>
          if \<not> isPointerTy (instType inst) then Inl (AssertionFailed ''inst->getType()->isPointerTy()'')
          else
            (case found (getValueNodeFor s (self inst)) ''Failed to find inttoptr dst node'' of
               Inl e \<Rightarrow> Inl e
             | Inr dstIndex \<Rightarrow>
                 Inr (emplace_back (AndersConstraint COPY dstIndex getUniversalPtrNode None) s))
      | Select \<Rightarrow>
          if isPointerTy (instType inst) then
            (case getOperand inst 1 of
               Inl e \<Rightarrow> Inl e
             | Inr (op1, t1) \<Rightarrow>
                 (case found (getValueNodeFor s op1) ''Failed to find select src node 1'' of
                    Inl e \<Rightarrow> Inl e
                  | Inr srcIndex1 \<Rightarrow>
                      (case getOperand inst 2 of
                         Inl e \<Rightarrow> Inl e
                       | Inr (op2, t2) \<Rightarrow>
                           (case found (getValueNodeFor s op2) ''Failed to find select src node 2'' of
                              Inl e \<Rightarrow> Inl e
                            | Inr srcIndex2 \<Rightarrow>
                                (case found (getValueNodeFor s (self inst))
                                        ''Failed to find select dst node'' of
                                   Inl e \<Rightarrow> Inl e
                                 | Inr dstIndex \<Rightarrow>
                                     Inr (emplace_back (AndersConstraint COPY dstIndex srcIndex2 None)
                                           (emplace_back (AndersConstraint COPY dstIndex srcIndex1 None)
                                              s)))))))
          else Inr s
      | VAArg \<Rightarrow>
          if isPointerTy (instType inst) then
            (case found (getValueNodeFor s (self inst)) ''Failed to find va_arg dst node'' of
               Inl e \<Rightarrow> Inl e
             | Inr dstIndex \<Rightarrow>
                 (case found (getVarargNodeFor s (fname parent)) ''Failed to find vararg node'' of
                    Inl e \<Rightarrow> Inl e
                  | Inr vaIndex \<Rightarrow>
                      Inr (emplace_back (AndersConstraint COPY dstIndex vaIndex None) s)))
          else Inr s
      | ExtractValue \<Rightarrow> Inl (AssertionFailed ''not implemented yet'')
      | InsertValue \<Rightarrow> Inl (AssertionFailed ''not implemented yet'')
      | LandingPad \<Rightarrow> Inl (AssertionFailed ''not implemented yet'')
      | Resume \<Rightarrow> Inl (AssertionFailed ''not implemented yet'')
      | AtomicRMW \<Rightarrow> Inl (AssertionFailed ''not implemented yet'')
      | AtomicCmpXchg \<Rightarrow> Inl (AssertionFailed ''not implemented yet'')
      | OtherOp \<Rightarrow>
          if isPointerTy (instType inst) then Inl (AssertionFailed ''pointer-related inst not handled!'')
          else Inr s)"

section \<open>The collector\<close>

text \<open>Value nodes for the pointer-typed formal arguments of a function with a body.\<close>

fun createArgNodes :: "string \<Rightarrow> nat \<Rightarrow> ty list \<Rightarrow> andersen \<Rightarrow> andersen" where
  "createArgNodes fn i [] s = s"
| "createArgNodes fn i (t # ts) s =
     createArgNodes fn (i + 1) ts
       (if isPointerTy t then snd (createValueNode (ArgV fn i) s) else s)"

text \<open>Pass 1: a value node for every instruction of pointer type.\<close>

fun createInstNodes :: "instruction list \<Rightarrow> andersen \<Rightarrow> andersen" where
  "createInstNodes [] s = s"
| "createInstNodes (inst # insts) s =
     createInstNodes insts
       (if isPointerTy (instType inst) then snd (createValueNode (self inst) s) else s)"

text \<open>Pass 2: the constraints of every instruction.\<close>

fun collectBody ::
  "externals \<Rightarrow> func list \<Rightarrow> func \<Rightarrow> instruction list \<Rightarrow> andersen \<Rightarrow> error + andersen" where
  "collectBody X moduleFuncs parent [] s = Inr s"
| "collectBody X moduleFuncs parent (inst # insts) s =
     (case collectConstraintsForInstruction X moduleFuncs parent inst s of
        Inl e \<Rightarrow> Inl e
      | Inr s' \<Rightarrow> collectBody X moduleFuncs parent insts s')"

text \<open>The loop \<^verbatim>\<open>for (auto const& f: M)\<close> of \<^verbatim>\<open>collectConstraints\<close>.\<close>

fun collectFunctions ::
  "externals \<Rightarrow> func list \<Rightarrow> (func \<times> instruction list) list \<Rightarrow> andersen \<Rightarrow> error + andersen" where
  "collectFunctions X moduleFuncs [] s = Inr s"
| "collectFunctions X moduleFuncs ((f, body) # rest) s =
     (if isDeclaration f \<or> isIntrinsic f then collectFunctions X moduleFuncs rest s
      else
        (let s1 = (if isPointerTy (returnType f) then snd (createReturnNode (fname f) s) else s);
             s2 = (if isVarArg f then snd (createVarargNode (fname f) s1) else s1);
             s3 = createArgNodes (fname f) 0 (formals f) s2;
             s4 = createInstNodes body s3
         in case collectBody X moduleFuncs f body s4 of
              Inl e \<Rightarrow> Inl e
            | Inr s5 \<Rightarrow> collectFunctions X moduleFuncs rest s5))"

text \<open>The three constraints \<^verbatim>\<open>collectConstraints\<close> starts with.\<close>

definition seedConstraints :: "constraint list" where
  "seedConstraints =
     [AndersConstraint ADDR_OF getUniversalPtrNode getUniversalObjNode None,
      AndersConstraint STORE getUniversalObjNode getUniversalObjNode None,
      AndersConstraint ADDR_OF getNullPtrNode getNullObjectNode None]"

definition seedState :: "andersen \<Rightarrow> andersen" where
  "seedState s =
     emplace_back (AndersConstraint ADDR_OF getNullPtrNode getNullObjectNode None)
       (emplace_back (AndersConstraint STORE getUniversalObjNode getUniversalObjNode None)
          (emplace_back (AndersConstraint ADDR_OF getUniversalPtrNode getUniversalObjNode None) s))"

text \<open>
  \<^verbatim>\<open>collectConstraints\<close>: the seeds, then \<^verbatim>\<open>collectConstraintsForGlobals\<close>, then the loop
  over the functions. \<^verbatim>\<open>structAnalyzer.run(M)\<close> is the collaborator's work and has
  happened in \<open>theStructAnalyzer X\<close>.
\<close>

definition collectConstraints :: "externals \<Rightarrow> Module \<Rightarrow> andersen \<Rightarrow> error + andersen" where
  "collectConstraints X M s =
     (case collectConstraintsForGlobals X M (seedState s) of
        Inl e \<Rightarrow> Inl e
      | Inr s1 \<Rightarrow> collectFunctions X (map fst (getFunctionList M)) (getFunctionList M) s1)"

section \<open>Example programs\<close>

text \<open>A table of modelled external routines that recognises nothing.\<close>

definition unmodelled :: "instruction \<Rightarrow> andersen \<Rightarrow> error + (bool \<times> andersen)" where
  "unmodelled cs s = Inr (False, s)"

text \<open>Collaborators with no library information (\<^verbatim>\<open>tli\<close> is null) and no modelled routine.\<close>

definition bareExternals :: "dataLayout \<Rightarrow> structAnalyzer \<Rightarrow> externals" where
  "bareExternals DL SA =
     \<lparr> theDataLayout = DL, theStructAnalyzer = SA, tli = None,
       addConstraintForExternalLibrary = unmodelled \<rparr>"

text \<open>
  \<^verbatim>\<open>define void @f(i32* %p, i32** %q) { store i32* %p, i32** %q  ret void }\<close>:
  the store instruction has type \<^verbatim>\<open>void\<close>, as every store has.
\<close>

definition storeFn :: func where
  "storeFn = \<lparr> fname = ''f'', isDeclaration = False, isIntrinsic = False, returnType = VoidTy,
     isVarArg = False, formals = [PointerTy (IntegerTy 32), PointerTy (PointerTy (IntegerTy 32))],
     hasAddressTaken = False \<rparr>"

definition storeInst :: instruction where
  "storeInst = \<lparr> self = InstV ''f'' 0, opcode = Store, instType = VoidTy,
     operands = [(ArgV ''f'' 0, PointerTy (IntegerTy 32)),
                 (ArgV ''f'' 1, PointerTy (PointerTy (IntegerTy 32)))],
     calledFunction = None, gepOffset = 0, gepBaseElemType = VoidTy \<rparr>"

definition storeProgram :: Module where
  "storeProgram = \<lparr> getGlobalList = [], getFunctionList = [(storeFn, [storeInst])] \<rparr>"

text \<open>
  \<^verbatim>\<open>declare void @ext(i32)\<close> and
  \<^verbatim>\<open>define void @main(i32 %x) { call void @ext(i32 %x) }\<close>.
\<close>

definition extDecl :: func where
  "extDecl = \<lparr> fname = ''ext'', isDeclaration = True, isIntrinsic = False, returnType = VoidTy,
     isVarArg = False, formals = [IntegerTy 32], hasAddressTaken = False \<rparr>"

definition mainFn :: func where
  "mainFn = \<lparr> fname = ''main'', isDeclaration = False, isIntrinsic = False, returnType = VoidTy,
     isVarArg = False, formals = [IntegerTy 32], hasAddressTaken = False \<rparr>"

definition callExt :: instruction where
  "callExt = \<lparr> self = InstV ''main'' 0, opcode = Call, instType = VoidTy,
     operands = [(ArgV ''main'' 0, IntegerTy 32)],
     calledFunction = Some extDecl, gepOffset = 0, gepBaseElemType = VoidTy \<rparr>"

definition extProgram :: Module where
  "extProgram = \<lparr> getGlobalList = [], getFunctionList = [(extDecl, []), (mainFn, [callExt])] \<rparr>"



text \<open>
  Modelled from the spec: the struct analyzer is an external collaborator, not among the
  sources. Section 3: field \<open>i\<close> of an aggregate is its \<open>i\<close>-th flattened field, and
  arrays collapse to their element type without consuming extra indices. So a scalar is
  one flattened field, an array has the fields of its element, a struct those of all its
  fields, and the flattened index of field \<open>idx\<close> counts the flattened fields before it.
\<close>

fun expandedSizeOf :: "ty \<Rightarrow> nat" where
  "expandedSizeOf (ArrayTy n t) = expandedSizeOf t"
| "expandedSizeOf (StructTy fs) = sum_list (map expandedSizeOf fs)"
| "expandedSizeOf t = 1"

definition flatStructInfo :: "ty list \<Rightarrow> structInfo" where
  "flatStructInfo fs =
     \<lparr> isEmpty = (sum_list (map expandedSizeOf fs) = 0),
       getExpandedSize = sum_list (map expandedSizeOf fs),
       getOffset = (\<lambda>idx. of_nat (sum_list (map expandedSizeOf (take idx fs)))) \<rparr>"

definition flatStructAnalyzer :: structAnalyzer where
  "flatStructAnalyzer t = (case t of StructTy fs \<Rightarrow> Some (flatStructInfo fs) | _ \<Rightarrow> None)"

text \<open>
  A layout for the examples: no padding, pointers of eight bytes. Field \<open>i\<close> of a struct
  starts where the fields before it end.
\<close>

fun packedSize :: "ty \<Rightarrow> nat" where
  "packedSize VoidTy = 0"
| "packedSize (IntegerTy n) = (n + 7) div 8"
| "packedSize FloatTy = 4"
| "packedSize (PointerTy t) = 8"
| "packedSize (VectorTy n t) = n * packedSize t"
| "packedSize (ArrayTy n t) = n * packedSize t"
| "packedSize (StructTy fs) = sum_list (map packedSize fs)"
| "packedSize OpaqueStructTy = 0"

fun fieldsOf :: "ty \<Rightarrow> ty list" where
  "fieldsOf (StructTy fs) = fs"
| "fieldsOf t = []"

fun elementContaining :: "ty list \<Rightarrow> nat \<Rightarrow> nat" where
  "elementContaining [] off = 0"
| "elementContaining [t] off = 0"
| "elementContaining (t # ts) off =
     (if off < packedSize t then 0 else Suc (elementContaining ts (off - packedSize t)))"

definition packedLayout :: dataLayout where
  "packedLayout =
     \<lparr> getTypeAllocSize = (\<lambda>t. of_nat (packedSize t)),
       getElementContainingOffset = (\<lambda>t off. elementContaining (fieldsOf t) (unat off)),
       getElementOffset = (\<lambda>t i. of_nat (sum_list (map packedSize (take i (fieldsOf t))))) \<rparr>"

text \<open>
  \<^verbatim>\<open>%pair = type { i8*, i8* }\<close> and, in \<^verbatim>\<open>define void @g(%pair* %p)\<close>, the instruction
  \<^verbatim>\<open>%f = getelementptr %pair* %p, i64 3, i32 1\<close>: byte offset \<open>3 * 16 + 8\<close>.
  \<open>gepState\<close> is the state after the nodes of \<^verbatim>\<open>@g\<close> have been allocated.
\<close>

definition pairTy :: ty where
  "pairTy = StructTy [PointerTy (IntegerTy 8), PointerTy (IntegerTy 8)]"

definition gepFn :: func where
  "gepFn = \<lparr> fname = ''g'', isDeclaration = False, isIntrinsic = False, returnType = VoidTy,
     isVarArg = False, formals = [PointerTy pairTy], hasAddressTaken = False \<rparr>"

definition gepInst :: instruction where
  "gepInst = \<lparr> self = InstV ''g'' 0, opcode = GetElementPtr,
     instType = PointerTy (PointerTy (IntegerTy 8)),
     operands = [(ArgV ''g'' 0, PointerTy pairTy)],
     calledFunction = None, gepOffset = 56, gepBaseElemType = pairTy \<rparr>"

definition gepState :: andersen where
  "gepState = createInstNodes [gepInst] (createArgNodes ''g'' 0 (formals gepFn) initialState)"

text \<open>\<^verbatim>\<open>@table = global [2 x { i8*, { i32, i8* } }]\<close>: three flattened fields.\<close>

definition tableGlobal :: globalVariable where
  "tableGlobal = \<lparr> gname = ''table'',
     valueType = ArrayTy 2 (StructTy [PointerTy (IntegerTy 8),
                                      StructTy [IntegerTy 32, PointerTy (IntegerTy 8)]]),
     definitiveInitializer = None \<rparr>"

text \<open>
  \<^verbatim>\<open>%ints = type { i32, i32 }\<close> and a pointer-arithmetic instruction on a \<^verbatim>\<open>%ints*\<close>
  whose byte offset is 6: two bytes into field 1.
\<close>

definition intPairTy :: ty where
  "intPairTy = StructTy [IntegerTy 32, IntegerTy 32]"

definition unionGep :: instruction where
  "unionGep = \<lparr> self = InstV ''g'' 0, opcode = GetElementPtr,
     instType = PointerTy (IntegerTy 8),
     operands = [(ArgV ''g'' 0, PointerTy intPairTy)],
     calledFunction = None, gepOffset = 6, gepBaseElemType = intPairTy \<rparr>"

definition unionState :: andersen where
  "unionState =
     createInstNodes [unionGep] (createArgNodes ''g'' 0 [PointerTy intPairTy] initialState)"

text \<open>
  Three integer globals \<^verbatim>\<open>@a\<close>, \<^verbatim>\<open>@b\<close>, \<^verbatim>\<open>@c\<close> and
  \<^verbatim>\<open>@s = global { { i32*, i32* }, i32* } { { i32*, i32* } { i32* @a, i32* @b }, i32* @c }\<close>.
  Field 1 of the outer struct is its third flattened field.
\<close>

definition innerTy :: ty where
  "innerTy = StructTy [PointerTy (IntegerTy 32), PointerTy (IntegerTy 32)]"

definition outerTy :: ty where
  "outerTy = StructTy [innerTy, PointerTy (IntegerTy 32)]"

definition intGlobal :: "string \<Rightarrow> globalVariable" where
  "intGlobal n = \<lparr> gname = n, valueType = IntegerTy 32,
     definitiveInitializer = Some (ConstantInt (IntegerTy 32) 0) \<rparr>"

definition nestedGlobal :: globalVariable where
  "nestedGlobal = \<lparr> gname = ''s'', valueType = outerTy,
     definitiveInitializer = Some
       (ConstantStruct outerTy
          [ConstantStruct innerTy
             [GlobalValue (PointerTy (IntegerTy 32)) (GlobalV ''a''),
              GlobalValue (PointerTy (IntegerTy 32)) (GlobalV ''b'')],
           GlobalValue (PointerTy (IntegerTy 32)) (GlobalV ''c'')]) \<rparr>"

definition nestedProgram :: Module where
  "nestedProgram =
     \<lparr> getGlobalList = [intGlobal ''a'', intGlobal ''b'', intGlobal ''c'', nestedGlobal],
       getFunctionList = [] \<rparr>"

text \<open>
  Five functions with bodies: \<^verbatim>\<open>@f2(i8*, i8*)\<close>, \<^verbatim>\<open>@f1(i8*)\<close> and the variadic
  \<^verbatim>\<open>@fv(i8*, ...)\<close> have their address taken, \<^verbatim>\<open>@h2(i8*, i8*)\<close> has not, and
  \<^verbatim>\<open>@caller(i8* %fp, i8* %x, i8* %y)\<close> holds the indirect call
  \<^verbatim>\<open>call void %fp(i8* %x, i8* %y)\<close>. \<open>indirectState\<close> is the state in which that call is
  translated: the address-taken functions declared, the nodes of the four callees and of
  \<^verbatim>\<open>@caller\<close> allocated.
\<close>

definition bytePtr :: ty where
  "bytePtr = PointerTy (IntegerTy 8)"

definition f2Fn :: func where
  "f2Fn = \<lparr> fname = ''f2'', isDeclaration = False, isIntrinsic = False, returnType = VoidTy,
     isVarArg = False, formals = [bytePtr, bytePtr], hasAddressTaken = True \<rparr>"

definition f1Fn :: func where
  "f1Fn = \<lparr> fname = ''f1'', isDeclaration = False, isIntrinsic = False, returnType = VoidTy,
     isVarArg = False, formals = [bytePtr], hasAddressTaken = True \<rparr>"

definition fvFn :: func where
  "fvFn = \<lparr> fname = ''fv'', isDeclaration = False, isIntrinsic = False, returnType = VoidTy,
     isVarArg = True, formals = [bytePtr], hasAddressTaken = True \<rparr>"

definition h2Fn :: func where
  "h2Fn = \<lparr> fname = ''h2'', isDeclaration = False, isIntrinsic = False, returnType = VoidTy,
     isVarArg = False, formals = [bytePtr, bytePtr], hasAddressTaken = False \<rparr>"

definition callerFn :: func where
  "callerFn = \<lparr> fname = ''caller'', isDeclaration = False, isIntrinsic = False,
     returnType = VoidTy, isVarArg = False, formals = [bytePtr, bytePtr, bytePtr],
     hasAddressTaken = False \<rparr>"

definition indirectCall :: instruction where
  "indirectCall = \<lparr> self = InstV ''caller'' 0, opcode = Call, instType = VoidTy,
     operands = [(ArgV ''caller'' 1, bytePtr), (ArgV ''caller'' 2, bytePtr)],
     calledFunction = None, gepOffset = 0, gepBaseElemType = VoidTy \<rparr>"

definition indirectFuncs :: "func list" where
  "indirectFuncs = [f2Fn, f1Fn, fvFn, h2Fn, callerFn]"

definition indirectState :: andersen where
  "indirectState =
     createInstNodes [indirectCall]
       (createArgNodes ''caller'' 0 (formals callerFn)
          (createArgNodes ''h2'' 0 (formals h2Fn)
             (createArgNodes ''fv'' 0 (formals fvFn)
                (snd (createVarargNode ''fv''
                   (createArgNodes ''f1'' 0 (formals f1Fn)
                      (createArgNodes ''f2'' 0 (formals f2Fn)
                         (declareFunctions indirectFuncs initialState))))))))"

text \<open>
  \<^verbatim>\<open>@g = external global i32\<close> (no visible definition) and
  \<^verbatim>\<open>define void @main() { %x = alloca i32 }\<close>.
\<close>

definition externGlobal :: globalVariable where
  "externGlobal = \<lparr> gname = ''g'', valueType = IntegerTy 32, definitiveInitializer = None \<rparr>"

definition allocaFn :: func where
  "allocaFn = \<lparr> fname = ''main'', isDeclaration = False, isIntrinsic = False,
     returnType = VoidTy, isVarArg = False, formals = [], hasAddressTaken = False \<rparr>"

definition allocaInst :: instruction where
  "allocaInst = \<lparr> self = InstV ''main'' 0, opcode = Alloca, instType = PointerTy (IntegerTy 32),
     operands = [], calledFunction = None, gepOffset = 0, gepBaseElemType = VoidTy \<rparr>"

definition orderProgram :: Module where
  "orderProgram = \<lparr> getGlobalList = [externGlobal], getFunctionList = [(allocaFn, [allocaInst])] \<rparr>"

text \<open>
  \<^verbatim>\<open>declare void @sink(i8*)\<close> and
  \<^verbatim>\<open>define void @user(i8* %p) { call void @sink(i8* %p) }\<close>.
\<close>

definition sinkDecl :: func where
  "sinkDecl = \<lparr> fname = ''sink'', isDeclaration = True, isIntrinsic = False, returnType = VoidTy,
     isVarArg = False, formals = [PointerTy (IntegerTy 8)], hasAddressTaken = False \<rparr>"

definition userFn :: func where
  "userFn = \<lparr> fname = ''user'', isDeclaration = False, isIntrinsic = False, returnType = VoidTy,
     isVarArg = False, formals = [PointerTy (IntegerTy 8)], hasAddressTaken = False \<rparr>"

definition callSink :: instruction where
  "callSink = \<lparr> self = InstV ''user'' 0, opcode = Call, instType = VoidTy,
     operands = [(ArgV ''user'' 0, PointerTy (IntegerTy 8))],
     calledFunction = Some sinkDecl, gepOffset = 0, gepBaseElemType = VoidTy \<rparr>"

definition sinkProgram :: Module where
  "sinkProgram = \<lparr> getGlobalList = [], getFunctionList = [(sinkDecl, []), (userFn, [callSink])] \<rparr>"

text \<open>
  \<^verbatim>\<open>%zf = type { [0 x i8], i8* }\<close>, whose field 1 starts at byte 0, and
  \<^verbatim>\<open>%f = getelementptr %zf* %p, i64 0, i32 1\<close>: byte offset 0.
\<close>

definition zeroFirstTy :: ty where
  "zeroFirstTy = StructTy [ArrayTy 0 (IntegerTy 8), PointerTy (IntegerTy 8)]"

definition zeroFirstGep :: instruction where
  "zeroFirstGep = \<lparr> self = InstV ''g'' 0, opcode = GetElementPtr,
     instType = PointerTy (PointerTy (IntegerTy 8)),
     operands = [(ArgV ''g'' 0, PointerTy zeroFirstTy)],
     calledFunction = None, gepOffset = 0, gepBaseElemType = zeroFirstTy \<rparr>"

definition zeroFirstState :: andersen where
  "zeroFirstState =
     createInstNodes [zeroFirstGep] (createArgNodes ''g'' 0 [PointerTy zeroFirstTy] initialState)"

text \<open>
  \<^verbatim>\<open>%af = type { [2 x i32], i32 }\<close> (twelve bytes, field 1 at byte 8) and
  \<^verbatim>\<open>%f = getelementptr %af* %p, i64 -1, i32 1\<close>: byte offset \<open>8 - 12\<close>, which the
  \<^verbatim>\<open>unsigned\<close> result of \<^verbatim>\<open>getGEPOffset\<close> holds as \<open>4294967292\<close>.
\<close>

definition arrayFirstTy :: ty where
  "arrayFirstTy = StructTy [ArrayTy 2 (IntegerTy 32), IntegerTy 32]"

definition wrappedGep :: instruction where
  "wrappedGep = \<lparr> self = InstV ''g'' 0, opcode = GetElementPtr,
     instType = PointerTy (IntegerTy 32),
     operands = [(ArgV ''g'' 0, PointerTy arrayFirstTy)],
     calledFunction = None, gepOffset = 4294967292, gepBaseElemType = arrayFirstTy \<rparr>"

definition wrappedState :: andersen where
  "wrappedState =
     createInstNodes [wrappedGep] (createArgNodes ''g'' 0 [PointerTy arrayFirstTy] initialState)"

text \<open>The constraint list of a run, or the error that aborted it.\<close>

definition constraintsOf :: "error + andersen \<Rightarrow> error + constraint list" where
  "constraintsOf r = (case r of Inl e \<Rightarrow> Inl e | Inr s \<Rightarrow> Inr (constraints s))"

section \<open>Store instructions\<close>

text \<open>
  C1. Claimed: a store of a pointer-typed value emits STORE(address operand, stored
  value). The translator tests the type of the store instruction itself, which is
  \<^verbatim>\<open>void\<close>, not the type of the stored value: on
  \<^verbatim>\<open>store i32* %p, i32** %q\<close> the whole run emits the three seed constraints and
  nothing else.
\<close>

theorem store_of_pointer_emits_no_constraint:
  "constraintsOf (collectConstraints X storeProgram initialState) = Inr seedConstraints"
  by (simp add: constraintsOf_def collectConstraints_def seedState_def collectConstraintsForGlobals_def
      storeProgram_def storeFn_def storeInst_def collectConstraintsForInstruction_def
      emplace_back_def initialState_def seedConstraints_def createValueNode_def)

text \<open>The same for every store instruction, in every state: nothing is emitted.\<close>

lemma store_translation_is_identity:
  "opcode inst = Store \<Longrightarrow> instType inst = VoidTy \<Longrightarrow>
   collectConstraintsForInstruction X moduleFuncs parent inst s = Inr s"
  by (simp add: collectConstraintsForInstruction_def)

section \<open>Unresolved external calls\<close>

text \<open>
  C3. Claimed: an unresolved external call emits no constraint for a non-pointer actual.
  The argument loop of that branch looks up the value node of every actual, whatever its
  type, and asserts that it exists; the integer argument \<^verbatim>\<open>%x\<close> has none, and the run
  aborts.
\<close>

theorem unresolved_call_with_integer_actual_aborts:
  "collectConstraints (bareExternals DL SA) extProgram initialState
     = Inl (AssertionFailed ''Failed to find arg node!'')"
  by (simp add: collectConstraints_def seedState_def collectConstraintsForGlobals_def extProgram_def
      extDecl_def mainFn_def callExt_def bareExternals_def unmodelled_def
      collectConstraintsForInstruction_def isMallocCall_def addConstraintForCall_def
      copyUniversalToResult_def emplace_back_def initialState_def getValueNodeFor_def)

text \<open>
  The branch does not end after its own two loops: control reaches
  \<^verbatim>\<open>addArgumentConstraintForCall(cs, f)\<close> below it, which looks up the value nodes of the
  declaration's pointer-typed formals. A declaration has none (only functions with a body
  get them), so an unresolved call that passes a pointer aborts as well, after the COPY
  into the actual has been emitted.
\<close>

lemma unresolved_call_with_pointer_formal_aborts:
  "collectConstraints (bareExternals DL SA) sinkProgram initialState
     = Inl (AssertionFailed ''Failed to find formal arg node!'')"
  by (simp add: collectConstraints_def seedState_def collectConstraintsForGlobals_def
      sinkProgram_def sinkDecl_def userFn_def callSink_def bareExternals_def unmodelled_def
      collectConstraintsForInstruction_def isMallocCall_def addConstraintForCall_def
      addArgumentConstraintForCall_def copyUniversalToResult_def emplace_back_def
      initialState_def getValueNodeFor_def createValueNode_def)

section \<open>Heap-allocation routines without library information\<close>



section \<open>Zero initializers\<close>

text \<open>
  C7. For an all-zero aggregate initializer (a \<^verbatim>\<open>ConstantAggregateZero\<close> of struct or
  array type, however deeply its type nests arrays and structs; the IR keeps every
  all-zero aggregate constant in this form) the initializer recursion emits exactly one
  constraint, COPY from the Null Object into the target object node, and visits none of
  the fields or elements. The struct analyzer is not consulted.
\<close>

theorem zero_aggregate_single_copy:
  assumes "isStructTy t \<or> isArrayTy t"
  shows "addGlobalInitializerConstraints SA objNode (ConstantAggregateZero t) s
           = Inr (s\<lparr>constraints :=
                      constraints s @ [AndersConstraint COPY objNode getNullObjectNode None]\<rparr>)"
proof -
  from assms have "\<not> isSingleValueType t"
    by (cases t) auto
  then show ?thesis
    by (simp add: emplace_back_def)
qed

theorem zero_aggregate_single_copy_witness:
  "(isStructTy (StructTy [ArrayTy 4 (StructTy [PointerTy (IntegerTy 8), IntegerTy 32]),
                          PointerTy (IntegerTy 8)])
    \<or> isArrayTy (StructTy [ArrayTy 4 (StructTy [PointerTy (IntegerTy 8), IntegerTy 32]),
                          PointerTy (IntegerTy 8)])) \<and>
   constraintsOf (addGlobalInitializerConstraints (\<lambda>t. None) 5
      (ConstantAggregateZero (StructTy [ArrayTy 4 (StructTy [PointerTy (IntegerTy 8), IntegerTy 32]),
                                        PointerTy (IntegerTy 8)])) initialState)
     = Inr [AndersConstraint COPY 5 getNullObjectNode None]"
proof -
  have a: "isStructTy (StructTy [ArrayTy 4 (StructTy [PointerTy (IntegerTy 8), IntegerTy 32]),
                          PointerTy (IntegerTy 8)])
    \<or> isArrayTy (StructTy [ArrayTy 4 (StructTy [PointerTy (IntegerTy 8), IntegerTy 32]),
                          PointerTy (IntegerTy 8)])"
    by simp
  show ?thesis
    using zero_aggregate_single_copy [OF a, of "\<lambda>t. None" 5 initialState]
    by (simp add: constraintsOf_def initialState_def)
qed

section \<open>Struct globals\<close>

lemma createFieldNodes_eq:
  "createFieldNodes i stSize s = s\<lparr>nodes := nodes s @ replicate (stSize - i) OBJ_NODE\<rparr>"
proof (induction i stSize s rule: createFieldNodes.induct)
  case (1 i stSize s)
  show ?case
  proof (cases "i < stSize")
    case True
    then have r: "replicate (stSize - i) OBJ_NODE = OBJ_NODE # replicate (stSize - (i + 1)) OBJ_NODE"
      by (cases "stSize - i") (simp_all add: Suc_diff_Suc)
    have "createFieldNodes i stSize s
            = createFieldNodes (i + 1) stSize (snd (createObjectNodeAnon s))"
      using True createFieldNodes.simps [of i stSize s] by simp
    also have "\<dots> = snd (createObjectNodeAnon s)
        \<lparr>nodes := nodes (snd (createObjectNodeAnon s)) @ replicate (stSize - (i + 1)) OBJ_NODE\<rparr>"
      using 1 [OF True] .
    also have "\<dots> = s\<lparr>nodes := nodes s @ replicate (stSize - i) OBJ_NODE\<rparr>"
      by (simp add: createObjectNodeAnon_def r)
    finally show ?thesis .
  next
    case False
    then show ?thesis
      using createFieldNodes.simps [of i stSize s] by simp
  qed
qed

text \<open>
  C8. A global that has no nodes yet and whose type, after stripping array wrapping, is a
  non-empty struct with \<open>N\<close> flattened fields (\<open>N\<close> positive, the struct being non-empty):
  one iteration of the first loop of \<^verbatim>\<open>collectConstraintsForGlobals\<close> appends to the node
  table exactly one value node followed by \<open>N\<close> object nodes, maps the global to that value
  node and to the first of the object nodes, and emits exactly one constraint, ADDR_OF
  from the value node to that first object node.
\<close>

theorem struct_global_nodes:
  assumes "collapseArray (valueType globalVal) = StructTy fs"
    and "map_option isEmpty (SA (StructTy fs)) = Some False"
    and "map_option getExpandedSize (SA (StructTy fs)) = Some N"
    and "0 < N"
    and "valueNodeMap s (GlobalV (gname globalVal)) = None"
    and "objNodeMap s (GlobalV (gname globalVal)) = None"
  shows "declareGlobals SA [globalVal] s =
           Inr (s\<lparr>nodes := nodes s @ VALUE_NODE # replicate N OBJ_NODE,
                  valueNodeMap := (valueNodeMap s)(GlobalV (gname globalVal) \<mapsto> length (nodes s)),
                  objNodeMap := (objNodeMap s)(GlobalV (gname globalVal) \<mapsto> length (nodes s) + 1),
                  constraints := constraints s @
                    [AndersConstraint ADDR_OF (length (nodes s)) (length (nodes s) + 1) None]\<rparr>)"
proof -
  from assms(2,3) obtain stInfo where
    i: "SA (StructTy fs) = Some stInfo" "\<not> isEmpty stInfo" "getExpandedSize stInfo = N"
    by (cases "SA (StructTy fs)") auto
  from assms(4) have r: "OBJ_NODE # replicate (N - 1) OBJ_NODE = replicate N OBJ_NODE"
    by (cases N) auto
  show ?thesis
    using assms(1,5,6) i r
    by (simp add: processStruct_def createValueNode_def createObjectNode_def
        createFieldNodes_eq emplace_back_def)
qed

theorem struct_global_nodes_witness:
  "collapseArray (valueType tableGlobal)
     = StructTy [PointerTy (IntegerTy 8), StructTy [IntegerTy 32, PointerTy (IntegerTy 8)]] \<and>
   map_option getExpandedSize (flatStructAnalyzer
     (StructTy [PointerTy (IntegerTy 8), StructTy [IntegerTy 32, PointerTy (IntegerTy 8)]])) = Some 3 \<and>
   declareGlobals flatStructAnalyzer [tableGlobal] initialState =
     Inr (initialState\<lparr>nodes := nodes initialState @ VALUE_NODE # replicate 3 OBJ_NODE,
            valueNodeMap := (valueNodeMap initialState)(GlobalV (gname tableGlobal) \<mapsto>
                               length (nodes initialState)),
            objNodeMap := (objNodeMap initialState)(GlobalV (gname tableGlobal) \<mapsto>
                               length (nodes initialState) + 1),
            constraints := constraints initialState @
              [AndersConstraint ADDR_OF (length (nodes initialState))
                 (length (nodes initialState) + 1) None]\<rparr>) \<and>
   length (nodes initialState) = 4"
proof -
  have a: "collapseArray (valueType tableGlobal)
     = StructTy [PointerTy (IntegerTy 8), StructTy [IntegerTy 32, PointerTy (IntegerTy 8)]]"
    by (simp add: tableGlobal_def)
  have b: "map_option isEmpty (flatStructAnalyzer
     (StructTy [PointerTy (IntegerTy 8), StructTy [IntegerTy 32, PointerTy (IntegerTy 8)]])) = Some False"
    by (simp add: flatStructAnalyzer_def flatStructInfo_def)
  have c: "map_option getExpandedSize (flatStructAnalyzer
     (StructTy [PointerTy (IntegerTy 8), StructTy [IntegerTy 32, PointerTy (IntegerTy 8)]])) = Some 3"
    by (simp add: flatStructAnalyzer_def flatStructInfo_def)
  have d: "(0::nat) < 3" by simp
  have e: "valueNodeMap initialState (GlobalV (gname tableGlobal)) = None"
    by (simp add: initialState_def)
  have f: "objNodeMap initialState (GlobalV (gname tableGlobal)) = None"
    by (simp add: initialState_def)
  have g: "length (nodes initialState) = 4"
    by (simp add: initialState_def)
  from struct_global_nodes [where SA = flatStructAnalyzer, OF a b c d e f] a c g show ?thesis
    by simp
qed

section \<open>Pointer arithmetic into a two-field struct\<close>

lemma gep_offset_nonzero:
  assumes "(ucast ((ucast (off :: u32) :: u64) mod sz) :: u32) = o1" and "o1 \<noteq> 0"
  shows "off \<noteq> 0"
proof
  assume "off = 0"
  then have "o1 = 0" using assms(1) by simp
  with assms(2) show False by simp
qed

text \<open>
  C6, as the code has it. The resolver sees the field only through the 32-bit byte offset.
  A pointer-arithmetic instruction whose underlying base type is, after collapsing
  arrays, a struct of two fields, field 1 having flattened index 1, and whose 32-bit byte
  offset, reduced modulo the struct's allocation size, is the byte offset \<open>o1\<close> of
  field 1, \<open>o1\<close> being not zero and found by the struct layout to lie in field 1: the
  translator emits exactly one constraint, a STORE from the instruction's node to its
  base operand's node whose field-offset tag is 1, whatever the byte offset \<open>o1\<close> is.
\<close>

theorem gep_into_field_one:
  assumes "opcode inst = GetElementPtr"
    and "isPointerTy (instType inst)"
    and "operands inst = (src, srcTy) # others"
    and "getValueNodeFor s src = Some srcIndex"
    and "getValueNodeFor s (self inst) = Some dstIndex"
    and "collapseArray (gepBaseElemType inst) = StructTy [t0, t1]"
    and "map_option (\<lambda>stInfo. getOffset stInfo 1) (theStructAnalyzer X (StructTy [t0, t1])) = Some 1"
    and "getTypeAllocSize (theDataLayout X) (StructTy [t0, t1]) \<noteq> 0"
    and "(ucast ((ucast (gepOffset inst) :: u64)
            mod getTypeAllocSize (theDataLayout X) (StructTy [t0, t1])) :: u32) = o1"
    and "o1 \<noteq> 0"
    and "getElementContainingOffset (theDataLayout X) (StructTy [t0, t1]) (ucast o1) = 1"
    and "(ucast (getElementOffset (theDataLayout X) (StructTy [t0, t1]) 1) :: u32) = o1"
  shows "collectConstraintsForInstruction X moduleFuncs parent inst s =
           Inr (s\<lparr>constraints := constraints s @
                    [AndersConstraint STORE dstIndex srcIndex (Some 1)]\<rparr>)"
proof -
  from assms(7) obtain stInfo where
    i: "theStructAnalyzer X (StructTy [t0, t1]) = Some stInfo" "getOffset stInfo 1 = 1"
    by (cases "theStructAnalyzer X (StructTy [t0, t1])") auto
  have nz: "gepOffset inst \<noteq> 0"
    using assms(9,10) by (rule gep_offset_nonzero)
  have "gepFieldLoop (theDataLayout X) (theStructAnalyzer X) (gepOffset inst) (gepBaseElemType inst) 0
          = gepFieldLoop (theDataLayout X) (theStructAnalyzer X) 0 t1 1"
    using nz assms(6,8-12) i by (subst gepFieldLoop.simps) (simp add: Let_def)
  also have "\<dots> = Inr (1, [])"
    by (subst gepFieldLoop.simps) simp
  finally have "getGEPInstFieldNum inst (theDataLayout X) (theStructAnalyzer X) = Inr (1, [])"
    by (simp add: getGEPInstFieldNum_def)
  then show ?thesis
    using assms(1-5)
    by (simp add: collectConstraintsForInstruction_def getOperand_def emplace_back_def)
qed

theorem gep_into_field_one_witness:
  "opcode gepInst = GetElementPtr \<and>
   getValueNodeFor gepState (ArgV ''g'' 0) = Some 4 \<and>
   getValueNodeFor gepState (self gepInst) = Some 5 \<and>
   gepOffset gepInst = 56 \<and>
   getElementOffset packedLayout (StructTy [PointerTy (IntegerTy 8), PointerTy (IntegerTy 8)]) 1 = 8 \<and>
   constraintsOf (collectConstraintsForInstruction (bareExternals packedLayout flatStructAnalyzer)
       [gepFn] gepFn gepInst gepState)
     = Inr [AndersConstraint STORE 5 4 (Some 1)]"
proof -
  have a: "opcode gepInst = GetElementPtr" by (simp add: gepInst_def)
  have b: "isPointerTy (instType gepInst)" by (simp add: gepInst_def)
  have c: "operands gepInst = (ArgV ''g'' 0, PointerTy pairTy) # []" by (simp add: gepInst_def)
  have d: "getValueNodeFor gepState (ArgV ''g'' 0) = Some 4"
    by (simp add: gepState_def gepFn_def gepInst_def pairTy_def getValueNodeFor_def
        createValueNode_def initialState_def)
  have e: "getValueNodeFor gepState (self gepInst) = Some 5"
    by (simp add: gepState_def gepFn_def gepInst_def pairTy_def getValueNodeFor_def
        createValueNode_def initialState_def)
  have f: "collapseArray (gepBaseElemType gepInst)
             = StructTy [PointerTy (IntegerTy 8), PointerTy (IntegerTy 8)]"
    by (simp add: gepInst_def pairTy_def)
  have g: "map_option (\<lambda>stInfo. getOffset stInfo 1)
             (theStructAnalyzer (bareExternals packedLayout flatStructAnalyzer)
                (StructTy [PointerTy (IntegerTy 8), PointerTy (IntegerTy 8)])) = Some 1"
    by (simp add: bareExternals_def flatStructAnalyzer_def flatStructInfo_def)
  have h: "getTypeAllocSize (theDataLayout (bareExternals packedLayout flatStructAnalyzer))
             (StructTy [PointerTy (IntegerTy 8), PointerTy (IntegerTy 8)]) \<noteq> 0"
    by (simp add: bareExternals_def packedLayout_def)
  have i: "(ucast ((ucast (gepOffset gepInst) :: u64)
              mod getTypeAllocSize (theDataLayout (bareExternals packedLayout flatStructAnalyzer))
                    (StructTy [PointerTy (IntegerTy 8), PointerTy (IntegerTy 8)])) :: u32) = 8"
    by (simp add: bareExternals_def packedLayout_def gepInst_def)
  have j: "(8 :: u32) \<noteq> 0" by simp
  have k: "getElementContainingOffset (theDataLayout (bareExternals packedLayout flatStructAnalyzer))
             (StructTy [PointerTy (IntegerTy 8), PointerTy (IntegerTy 8)]) (ucast (8 :: u32)) = 1"
    by (simp add: bareExternals_def packedLayout_def)
  have l: "(ucast (getElementOffset (theDataLayout (bareExternals packedLayout flatStructAnalyzer))
             (StructTy [PointerTy (IntegerTy 8), PointerTy (IntegerTy 8)]) 1) :: u32) = 8"
    by (simp add: bareExternals_def packedLayout_def)
  have m: "constraints gepState = []"
    by (simp add: gepState_def gepFn_def gepInst_def pairTy_def createValueNode_def
        initialState_def)
  have n: "gepOffset gepInst = 56" by (simp add: gepInst_def)
  have o: "getElementOffset packedLayout
             (StructTy [PointerTy (IntegerTy 8), PointerTy (IntegerTy 8)]) 1 = 8"
    by (simp add: packedLayout_def)
  from gep_into_field_one [OF a b c d e f g h i j k l, of "[gepFn]" gepFn] a d e m n o
  show ?thesis
    by (simp add: constraintsOf_def)
qed

lemma zeroFirst_field: "getGEPInstFieldNum zeroFirstGep packedLayout flatStructAnalyzer = Inr (0, [])"
  by (simp add: getGEPInstFieldNum_def zeroFirstGep_def gepFieldLoop.simps)

lemma wrapped_field: "getGEPInstFieldNum wrappedGep packedLayout flatStructAnalyzer = Inr (0, [])"
proof -
  have "gepFieldLoop packedLayout flatStructAnalyzer 4294967292 arrayFirstTy 0
          = gepFieldLoop packedLayout flatStructAnalyzer 0 (ArrayTy 2 (IntegerTy 32)) 0"
    by (subst gepFieldLoop.simps)
       (simp add: arrayFirstTy_def packedLayout_def flatStructAnalyzer_def flatStructInfo_def Let_def)
  also have "\<dots> = Inr (0, [])"
    by (subst gepFieldLoop.simps) simp
  finally show ?thesis
    by (simp add: getGEPInstFieldNum_def wrappedGep_def)
qed

text \<open>
  C6 as claimed (tag 1 for every constant-index pointer-arithmetic instruction that
  addresses field 1 of a two-field struct) fails where the byte offset does not show the
  field. In \<^verbatim>\<open>%zf\<close> field 1 has flattened index 1 and starts at byte 0: the offset of
  \<^verbatim>\<open>getelementptr %zf* %p, i64 0, i32 1\<close> is 0, the loop is not entered, and the tag
  is 0. In \<^verbatim>\<open>%af\<close> field 1 has flattened index 1 and starts at byte 8: the offset of
  \<^verbatim>\<open>getelementptr %af* %p, i64 -1, i32 1\<close> is \<open>8 - 12\<close> in 32 bits, a multiple of the
  allocation size 12, so the loop sees offset 0 in field 0, and the tag is 0.
\<close>

theorem gep_into_field_one_counterexample:
  "map_option (\<lambda>stInfo. getOffset stInfo 1) (flatStructAnalyzer zeroFirstTy) = Some 1 \<and>
   getElementOffset packedLayout zeroFirstTy 1 = 0 \<and>
   getElementContainingOffset packedLayout zeroFirstTy 0 = 1 \<and>
   gepOffset zeroFirstGep = 0 \<and>
   constraintsOf (collectConstraintsForInstruction (bareExternals packedLayout flatStructAnalyzer)
       [gepFn] gepFn zeroFirstGep zeroFirstState)
     = Inr [AndersConstraint STORE 5 4 (Some 0)] \<and>
   map_option (\<lambda>stInfo. getOffset stInfo 1) (flatStructAnalyzer arrayFirstTy) = Some 1 \<and>
   getTypeAllocSize packedLayout arrayFirstTy = 12 \<and>
   getElementOffset packedLayout arrayFirstTy 1 = 8 \<and>
   gepOffset wrappedGep = 8 - 12 \<and>
   constraintsOf (collectConstraintsForInstruction (bareExternals packedLayout flatStructAnalyzer)
       [gepFn] gepFn wrappedGep wrappedState)
     = Inr [AndersConstraint STORE 5 4 (Some 0)]"
proof -
  have a: "map_option (\<lambda>stInfo. getOffset stInfo 1) (flatStructAnalyzer zeroFirstTy) = Some 1"
    by (simp add: zeroFirstTy_def flatStructAnalyzer_def flatStructInfo_def)
  have b: "getElementOffset packedLayout zeroFirstTy 1 = 0"
    by (simp add: zeroFirstTy_def packedLayout_def)
  have c: "getElementContainingOffset packedLayout zeroFirstTy 0 = 1"
    by (simp add: zeroFirstTy_def packedLayout_def)
  have d: "gepOffset zeroFirstGep = 0"
    by (simp add: zeroFirstGep_def)
  have e: "constraintsOf (collectConstraintsForInstruction
        (bareExternals packedLayout flatStructAnalyzer) [gepFn] gepFn zeroFirstGep zeroFirstState)
     = Inr [AndersConstraint STORE 5 4 (Some 0)]"
    using zeroFirst_field
    by (simp add: constraintsOf_def collectConstraintsForInstruction_def bareExternals_def
        getOperand_def getValueNodeFor_def zeroFirstState_def zeroFirstGep_def
        createValueNode_def emplace_back_def initialState_def)
  have f: "map_option (\<lambda>stInfo. getOffset stInfo 1) (flatStructAnalyzer arrayFirstTy) = Some 1"
    by (simp add: arrayFirstTy_def flatStructAnalyzer_def flatStructInfo_def)
  have g: "getTypeAllocSize packedLayout arrayFirstTy = 12"
    by (simp add: arrayFirstTy_def packedLayout_def)
  have h: "getElementOffset packedLayout arrayFirstTy 1 = 8"
    by (simp add: arrayFirstTy_def packedLayout_def)
  have i: "gepOffset wrappedGep = 8 - 12"
    by (simp add: wrappedGep_def)
  have j: "constraintsOf (collectConstraintsForInstruction
        (bareExternals packedLayout flatStructAnalyzer) [gepFn] gepFn wrappedGep wrappedState)
     = Inr [AndersConstraint STORE 5 4 (Some 0)]"
    using wrapped_field
    by (simp add: constraintsOf_def collectConstraintsForInstruction_def bareExternals_def
        getOperand_def getValueNodeFor_def wrappedState_def wrappedGep_def
        createValueNode_def emplace_back_def initialState_def)
  from a b c d e f g h i j show ?thesis by blast
qed


section \<open>Pointer arithmetic into the middle of a field\<close>

text \<open>
  The way the resolver's loop walks down through nested structs: one step for each
  iteration that takes the struct branch, from the loop variables before the iteration to
  those after it.
\<close>

inductive descends ::
  "dataLayout \<Rightarrow> structAnalyzer \<Rightarrow> u32 \<Rightarrow> ty \<Rightarrow> u32 \<Rightarrow> u32 \<Rightarrow> ty \<Rightarrow> u32 \<Rightarrow> bool"
  for DL :: dataLayout and SA :: structAnalyzer where
  here: "descends DL SA offset t ret offset t ret"
| field:
  "offset \<noteq> 0 \<Longrightarrow>
   collapseArray t = StructTy fs \<Longrightarrow>
   getTypeAllocSize DL (StructTy fs) \<noteq> 0 \<Longrightarrow>
   offset1 = (ucast ((ucast offset :: u64) mod getTypeAllocSize DL (StructTy fs)) :: u32) \<Longrightarrow>
   idx = getElementContainingOffset DL (StructTy fs) (ucast offset1) \<Longrightarrow>
   idx < length fs \<Longrightarrow>
   SA (StructTy fs) = Some stInfo \<Longrightarrow>
   descends DL SA (offset1 - ucast (getElementOffset DL (StructTy fs) idx)) (fs ! idx)
     (ret + getOffset stInfo idx) offset' t' ret' \<Longrightarrow>
   descends DL SA offset t ret offset' t' ret'"

lemma descends_loop:
  "descends DL SA offset t ret offset' t' ret' \<Longrightarrow>
   gepFieldLoop DL SA offset t ret = gepFieldLoop DL SA offset' t' ret'"
proof (induction rule: descends.induct)
  case (here offset t ret)
  show ?case by simp
next
  case (field offset t fs offset1 idx stInfo ret offset' t' ret')
  have "gepFieldLoop DL SA offset t ret
          = gepFieldLoop DL SA (offset1 - ucast (getElementOffset DL (StructTy fs) idx)) (fs ! idx)
              (ret + getOffset stInfo idx)"
    using field.hyps(1-7) by (subst gepFieldLoop.simps) (simp add: Let_def)
  with field.IH show ?case by simp
qed

lemma loop_inside_field:
  assumes "offset \<noteq> 0"
    and "\<not> isStructTy (collapseArray t)"
    and "getTypeAllocSize DL (collapseArray t) \<noteq> 0"
    and "(ucast ((ucast offset :: u64) mod getTypeAllocSize DL (collapseArray t)) :: u32) \<noteq> 0"
  shows "gepFieldLoop DL SA offset t ret = Inr (ret, [gepWarning])"
  using assms
  by (subst gepFieldLoop.simps) (cases "collapseArray t"; simp add: Let_def)

text \<open>
  C9. A pointer-arithmetic instruction whose byte offset, after the walk through the
  enclosing structs, is left nonzero against a non-struct type of which it is no multiple
  (it lands strictly inside a non-aggregate field): the resolver writes the diagnostic,
  stops, and returns the field index accumulated up to there; the translator does not
  abort, it records the diagnostic and emits the STORE tagged with that field index.
\<close>

theorem gep_inside_field:
  assumes "opcode inst = GetElementPtr"
    and "isPointerTy (instType inst)"
    and "operands inst = (src, srcTy) # others"
    and "getValueNodeFor s src = Some srcIndex"
    and "getValueNodeFor s (self inst) = Some dstIndex"
    and "descends (theDataLayout X) (theStructAnalyzer X)
           (gepOffset inst) (gepBaseElemType inst) 0 offset t ret"
    and "offset \<noteq> 0"
    and "\<not> isStructTy (collapseArray t)"
    and "getTypeAllocSize (theDataLayout X) (collapseArray t) \<noteq> 0"
    and "(ucast ((ucast offset :: u64) mod getTypeAllocSize (theDataLayout X) (collapseArray t)) :: u32) \<noteq> 0"
  shows "getGEPInstFieldNum inst (theDataLayout X) (theStructAnalyzer X) = Inr (ret, [gepWarning]) \<and>
         collectConstraintsForInstruction X moduleFuncs parent inst s =
           Inr (s\<lparr>constraints := constraints s @
                    [AndersConstraint STORE dstIndex srcIndex (Some ret)],
                  errs := errs s @ [gepWarning]\<rparr>)"
proof -
  have g: "getGEPInstFieldNum inst (theDataLayout X) (theStructAnalyzer X) = Inr (ret, [gepWarning])"
    using descends_loop [OF assms(6)] loop_inside_field [OF assms(7-10)]
    by (simp add: getGEPInstFieldNum_def)
  then show ?thesis
    using assms(1-5)
    by (simp add: collectConstraintsForInstruction_def getOperand_def emplace_back_def)
qed

lemma unionGep_descends: "descends packedLayout flatStructAnalyzer 6 intPairTy 0 2 (IntegerTy 32) 1"
proof (rule descends.field [where fs = "[IntegerTy 32, IntegerTy 32]" and idx = 1
      and ?offset1.0 = 6 and stInfo = "flatStructInfo [IntegerTy 32, IntegerTy 32]"])
  show "(6::u32) \<noteq> 0" by simp
  show "collapseArray intPairTy = StructTy [IntegerTy 32, IntegerTy 32]"
    by (simp add: intPairTy_def)
  show "getTypeAllocSize packedLayout (StructTy [IntegerTy 32, IntegerTy 32]) \<noteq> 0"
    by (simp add: packedLayout_def)
  show "(6::u32) = ucast ((ucast (6::u32) :: u64)
           mod getTypeAllocSize packedLayout (StructTy [IntegerTy 32, IntegerTy 32]))"
    by (simp add: packedLayout_def)
  show "1 = getElementContainingOffset packedLayout (StructTy [IntegerTy 32, IntegerTy 32])
              (ucast (6::u32))"
    by (simp add: packedLayout_def)
  show "1 < length [IntegerTy 32, IntegerTy 32]" by simp
  show "flatStructAnalyzer (StructTy [IntegerTy 32, IntegerTy 32])
          = Some (flatStructInfo [IntegerTy 32, IntegerTy 32])"
    by (simp add: flatStructAnalyzer_def)
  have "descends packedLayout flatStructAnalyzer 2 (IntegerTy 32) 1 2 (IntegerTy 32) 1"
    by (rule descends.here)
  then show "descends packedLayout flatStructAnalyzer
      (6 - ucast (getElementOffset packedLayout (StructTy [IntegerTy 32, IntegerTy 32]) 1))
      ([IntegerTy 32, IntegerTy 32] ! 1)
      (0 + getOffset (flatStructInfo [IntegerTy 32, IntegerTy 32]) 1) 2 (IntegerTy 32) 1"
    by (simp add: packedLayout_def flatStructInfo_def)
qed

theorem gep_inside_field_witness:
  "descends packedLayout flatStructAnalyzer (gepOffset unionGep) (gepBaseElemType unionGep) 0
      2 (IntegerTy 32) 1 \<and>
   getGEPInstFieldNum unionGep packedLayout flatStructAnalyzer = Inr (1, [gepWarning]) \<and>
   constraintsOf (collectConstraintsForInstruction (bareExternals packedLayout flatStructAnalyzer)
       [] gepFn unionGep unionState) = Inr [AndersConstraint STORE 5 4 (Some 1)]"
proof -
  have a: "opcode unionGep = GetElementPtr" by (simp add: unionGep_def)
  have b: "isPointerTy (instType unionGep)" by (simp add: unionGep_def)
  have c: "operands unionGep = (ArgV ''g'' 0, PointerTy intPairTy) # []" by (simp add: unionGep_def)
  have d: "getValueNodeFor unionState (ArgV ''g'' 0) = Some 4"
    by (simp add: unionState_def unionGep_def intPairTy_def getValueNodeFor_def
        createValueNode_def initialState_def)
  have e: "getValueNodeFor unionState (self unionGep) = Some 5"
    by (simp add: unionState_def unionGep_def intPairTy_def getValueNodeFor_def
        createValueNode_def initialState_def)
  have f: "descends (theDataLayout (bareExternals packedLayout flatStructAnalyzer))
             (theStructAnalyzer (bareExternals packedLayout flatStructAnalyzer))
             (gepOffset unionGep) (gepBaseElemType unionGep) 0 2 (IntegerTy 32) 1"
    using unionGep_descends by (simp add: bareExternals_def unionGep_def)
  have g: "(2::u32) \<noteq> 0" by simp
  have h: "\<not> isStructTy (collapseArray (IntegerTy 32))" by simp
  have i: "getTypeAllocSize (theDataLayout (bareExternals packedLayout flatStructAnalyzer))
             (collapseArray (IntegerTy 32)) \<noteq> 0"
    by (simp add: bareExternals_def packedLayout_def)
  have j: "(ucast ((ucast (2::u32) :: u64)
             mod getTypeAllocSize (theDataLayout (bareExternals packedLayout flatStructAnalyzer))
                   (collapseArray (IntegerTy 32))) :: u32) \<noteq> 0"
    by (simp add: bareExternals_def packedLayout_def)
  have k: "constraints unionState = []"
    by (simp add: unionState_def unionGep_def intPairTy_def createValueNode_def initialState_def)
  from gep_inside_field [OF a b c d e f g h i j, of "[]" gepFn] f k
  show ?thesis
    by (simp add: constraintsOf_def bareExternals_def unionGep_def)
qed


section \<open>Struct literals in initializers\<close>

text \<open>
  C2. Claimed: operand \<open>i\<close> of a struct literal is directed at the base object node
  offset by the flattened index of field \<open>i\<close>. The struct loop passes the operand
  position \<open>i\<close> itself to \<^verbatim>\<open>getOffsetObjectNode\<close>; the \<^verbatim>\<open>StructInfo\<close> it fetches is only
  asserted to exist. For \<^verbatim>\<open>@s\<close> (base object node 11) field 1 has flattened index 2, yet
  the address of \<^verbatim>\<open>@c\<close> (object node 9) goes to node \<open>11 + 1\<close>, the node that already holds
  the address of \<^verbatim>\<open>@b\<close>, and node 13 is left without contents.
\<close>

theorem struct_literal_operand_position:
  "map_option (\<lambda>stInfo. getOffset stInfo 1) (flatStructAnalyzer outerTy) = Some 2 \<and>
   constraintsOf (collectConstraints (bareExternals DL flatStructAnalyzer) nestedProgram initialState)
     = Inr (seedConstraints @
        [AndersConstraint ADDR_OF 4 5 None, AndersConstraint ADDR_OF 6 7 None,
         AndersConstraint ADDR_OF 8 9 None, AndersConstraint ADDR_OF 10 11 None,
         AndersConstraint ADDR_OF 11 5 None, AndersConstraint ADDR_OF 12 7 None,
         AndersConstraint ADDR_OF 12 9 None])"
  by (simp add: constraintsOf_def collectConstraints_def seedState_def collectConstraintsForGlobals_def
      nestedProgram_def nestedGlobal_def intGlobal_def outerTy_def innerTy_def
      bareExternals_def flatStructAnalyzer_def flatStructInfo_def processStruct_def
      createValueNode_def createObjectNode_def createFieldNodes_eq emplace_back_def
      initialState_def seedConstraints_def getObjectNodeFor_def getOffsetObjectNode_def
      getNullObjectNode_def getUniversalObjNode_def getUniversalPtrNode_def getNullPtrNode_def)


section \<open>Indirect calls\<close>

text \<open>
  The claim in its own words: argument binding against each function of a list in turn,
  and the candidates of a call site, the address-taken functions whose number of fixed
  formals is the call site's number of actuals, or which are variadic.
\<close>

fun bindAll :: "func list \<Rightarrow> instruction \<Rightarrow> andersen \<Rightarrow> error + andersen" where
  "bindAll [] cs s = Inr s"
| "bindAll (f # fs) cs s =
     (case addArgumentConstraintForCall cs f s of
        Inl e \<Rightarrow> Inl e
      | Inr s' \<Rightarrow> bindAll fs cs s')"

definition isCandidate :: "instruction \<Rightarrow> func \<Rightarrow> bool" where
  "isCandidate cs f \<longleftrightarrow>
     hasAddressTaken f \<and> (length (formals f) = length (operands cs) \<or> isVarArg f)"

lemma bindFormals_valueNodeMap:
  "bindFormals fn i fs as s = Inr (rest, s') \<Longrightarrow> valueNodeMap s' = valueNodeMap s"
proof (induction fn i fs as s rule: bindFormals.induct)
  case (1 fn i actuals s)
  then show ?case by simp
next
  case (2 fn i formalTy fs s)
  then show ?case by simp
next
  case (3 fn i formalTy fs actual actualTy as s)
  then show ?case
    by (auto simp: emplace_back_def getValueNodeFor_def split: if_splits sum.splits)
qed

lemma bindVarargs_valueNodeMap:
  "bindVarargs fn as s = Inr s' \<Longrightarrow> valueNodeMap s' = valueNodeMap s"
proof (induction fn as s rule: bindVarargs.induct)
  case (1 fn s)
  then show ?case by simp
next
  case (2 fn actual actualTy as s)
  then show ?case
    by (auto simp: emplace_back_def getValueNodeFor_def getVarargNodeFor_def
        split: if_splits sum.splits)
qed

lemma addArgumentConstraintForCall_valueNodeMap:
  assumes "addArgumentConstraintForCall cs f s = Inr s'"
  shows "valueNodeMap s' = valueNodeMap s"
proof -
  from assms obtain rest s1 where
    a: "bindFormals (fname f) 0 (formals f) (operands cs) s = Inr (rest, s1)" and
    b: "(if isVarArg f then bindVarargs (fname f) rest s1 else Inr s1) = Inr s'"
    by (auto simp: addArgumentConstraintForCall_def split: sum.splits prod.splits)
  from a have "valueNodeMap s1 = valueNodeMap s"
    by (rule bindFormals_valueNodeMap)
  moreover from b have "valueNodeMap s' = valueNodeMap s1"
    by (auto split: if_splits dest: bindVarargs_valueNodeMap)
  ultimately show ?thesis by simp
qed

lemma copyUniversalToResult_valueNodeMap:
  "copyUniversalToResult cs s = Inr s' \<Longrightarrow> valueNodeMap s' = valueNodeMap s"
  by (auto simp: copyUniversalToResult_def emplace_back_def split: if_splits sum.splits)

lemma bindCandidates_filter:
  "list_all (\<lambda>f. (getValueNodeFor s (FuncV (fname f)) \<noteq> None) = hasAddressTaken f) fs \<Longrightarrow>
   bindCandidates fs cs s = bindAll (filter (isCandidate cs) fs) cs s"
proof (induction fs arbitrary: s)
  case Nil
  show ?case by simp
next
  case (Cons f fs)
  from Cons.prems have
    hd: "(getValueNodeFor s (FuncV (fname f)) \<noteq> None) = hasAddressTaken f" and
    tl: "list_all (\<lambda>f. (getValueNodeFor s (FuncV (fname f)) \<noteq> None) = hasAddressTaken f) fs"
    by simp_all
  show ?case
  proof (cases "isCandidate cs f")
    case False
    with hd Cons.IH [OF tl] show ?thesis
      by (cases "getValueNodeFor s (FuncV (fname f))") (auto simp: isCandidate_def)
  next
    case True
    with hd obtain n where n: "getValueNodeFor s (FuncV (fname f)) = Some n"
      by (auto simp: isCandidate_def)
    show ?thesis
    proof (cases "addArgumentConstraintForCall cs f s")
      case (Inl e)
      with True n show ?thesis by (auto simp: isCandidate_def)
    next
      case (Inr s')
      then have "valueNodeMap s' = valueNodeMap s"
        by (rule addArgumentConstraintForCall_valueNodeMap)
      with tl have "list_all (\<lambda>f. (getValueNodeFor s' (FuncV (fname f)) \<noteq> None) = hasAddressTaken f) fs"
        by (simp add: getValueNodeFor_def)
      from Cons.IH [OF this] Inr True n show ?thesis
        by (auto simp: isCandidate_def)
    qed
  qed
qed

text \<open>
  The translator recognises an address-taken function by its value node. The second loop of
  \<^verbatim>\<open>collectConstraintsForGlobals\<close> gives a value node to exactly the address-taken
  functions (function names being unique in a module).
\<close>

lemma declareFunctions_funcNode:
  "(valueNodeMap (declareFunctions fs s) (FuncV n) \<noteq> None) =
     (valueNodeMap s (FuncV n) \<noteq> None \<or> (\<exists>f\<in>set fs. fname f = n \<and> hasAddressTaken f))"
proof (induction fs arbitrary: s)
  case Nil
  show ?case by simp
next
  case (Cons f fs)
  show ?case
  proof (cases "hasAddressTaken f")
    case False
    with Cons.IH [of s] show ?thesis by auto
  next
    case True
    define s2 where "s2 = emplace_back
        (AndersConstraint ADDR_OF (fst (createValueNode (FuncV (fname f)) s))
           (fst (createObjectNode (FuncV (fname f)) (snd (createValueNode (FuncV (fname f)) s)))) None)
        (snd (createObjectNode (FuncV (fname f)) (snd (createValueNode (FuncV (fname f)) s))))"
    have d: "declareFunctions (f # fs) s = declareFunctions fs s2"
      using True by (simp add: s2_def split: prod.splits)
    have v: "(valueNodeMap s2 (FuncV n) \<noteq> None) = (valueNodeMap s (FuncV n) \<noteq> None \<or> fname f = n)"
      by (auto simp: s2_def emplace_back_def createValueNode_def createObjectNode_def
          split: option.splits)
    from Cons.IH [of s2] d v True show ?thesis by auto
  qed
qed

lemma declareFunctions_establishes:
  assumes "distinct (map fname fs)"
    and "\<forall>f\<in>set fs. valueNodeMap s (FuncV (fname f)) = None"
  shows "list_all (\<lambda>f. (getValueNodeFor (declareFunctions fs s) (FuncV (fname f)) \<noteq> None)
                        = hasAddressTaken f) fs"
proof -
  have "(getValueNodeFor (declareFunctions fs s) (FuncV (fname f)) \<noteq> None) = hasAddressTaken f"
    if f: "f \<in> set fs" for f
  proof -
    from assms(1) have inj: "inj_on fname (set fs)"
      by (simp add: distinct_map)
    have "(\<exists>g\<in>set fs. fname g = fname f \<and> hasAddressTaken g) = hasAddressTaken f"
      using f inj by (auto dest: inj_onD)
    moreover from assms(2) f have "valueNodeMap s (FuncV (fname f)) = None"
      by simp
    ultimately show ?thesis
      unfolding getValueNodeFor_def declareFunctions_funcNode by simp
  qed
  then show ?thesis by (simp add: list_all_iff)
qed


text \<open>
  C5. In a state where exactly the address-taken functions of the module have a value
  node, an indirect call copies the Universal Pointer into its result if that is a
  pointer, and then binds its arguments against exactly the candidates, in module order:
  the address-taken functions with as many fixed formals as the call has actuals and the
  variadic address-taken functions; against no other function.
\<close>

theorem indirect_call_candidates:
  assumes "calledFunction cs = None"
    and "list_all (\<lambda>f. (getValueNodeFor s (FuncV (fname f)) \<noteq> None) = hasAddressTaken f)
           moduleFuncs"
  shows "addConstraintForCall X moduleFuncs cs s =
           (case copyUniversalToResult cs s of
              Inl e \<Rightarrow> Inl e
            | Inr s1 \<Rightarrow> bindAll (filter (isCandidate cs) moduleFuncs) cs s1)"
proof (cases "copyUniversalToResult cs s")
  case (Inl e)
  with assms(1) show ?thesis by (simp add: addConstraintForCall_def)
next
  case (Inr s1)
  then have "valueNodeMap s1 = valueNodeMap s"
    by (rule copyUniversalToResult_valueNodeMap)
  with assms(2) have "list_all (\<lambda>f. (getValueNodeFor s1 (FuncV (fname f)) \<noteq> None) = hasAddressTaken f)
           moduleFuncs"
    by (simp add: getValueNodeFor_def)
  from bindCandidates_filter [OF this] Inr assms(1) show ?thesis
    by (simp add: addConstraintForCall_def)
qed


lemmas indirect_defs = indirectState_def indirectFuncs_def indirectCall_def callerFn_def h2Fn_def fvFn_def
  f1Fn_def f2Fn_def bytePtr_def

lemma indirectState_simps:
  "valueNodeMap indirectState =
     [FuncV ''f2'' \<mapsto> 4, FuncV ''f1'' \<mapsto> 6, FuncV ''fv'' \<mapsto> 8,
      ArgV ''f2'' 0 \<mapsto> 10, ArgV ''f2'' 1 \<mapsto> 11, ArgV ''f1'' 0 \<mapsto> 12,
      ArgV ''fv'' 0 \<mapsto> 14, ArgV ''h2'' 0 \<mapsto> 15, ArgV ''h2'' 1 \<mapsto> 16,
      ArgV ''caller'' 0 \<mapsto> 17, ArgV ''caller'' 1 \<mapsto> 18, ArgV ''caller'' 2 \<mapsto> 19]"
  "varargMap indirectState = [''fv'' \<mapsto> 13]"
  "constraints indirectState =
     [AndersConstraint ADDR_OF 4 5 None, AndersConstraint ADDR_OF 6 7 None,
      AndersConstraint ADDR_OF 8 9 None]"
  by (simp_all add: indirect_defs createValueNode_def createObjectNode_def createVarargNode_def
      emplace_back_def initialState_def eval_nat_numeral)

theorem indirect_call_candidates_witness:
  "calledFunction indirectCall = None \<and>
   list_all (\<lambda>f. (getValueNodeFor indirectState (FuncV (fname f)) \<noteq> None) = hasAddressTaken f)
     indirectFuncs \<and>
   filter (isCandidate indirectCall) indirectFuncs = [f2Fn, fvFn] \<and>
   constraintsOf (addConstraintForCall (bareExternals packedLayout flatStructAnalyzer)
       indirectFuncs indirectCall indirectState)
     = Inr [AndersConstraint ADDR_OF 4 5 None, AndersConstraint ADDR_OF 6 7 None,
            AndersConstraint ADDR_OF 8 9 None,
            AndersConstraint COPY 10 18 None, AndersConstraint COPY 11 19 None,
            AndersConstraint COPY 14 18 None, AndersConstraint COPY 13 19 None]"
proof -
  have a: "calledFunction indirectCall = None"
    by (simp add: indirectCall_def)
  have b: "list_all (\<lambda>f. (getValueNodeFor indirectState (FuncV (fname f)) \<noteq> None) = hasAddressTaken f)
     indirectFuncs"
    by (simp add: getValueNodeFor_def indirectState_simps)
       (simp add: indirectFuncs_def callerFn_def h2Fn_def fvFn_def f1Fn_def f2Fn_def)
  have c: "filter (isCandidate indirectCall) indirectFuncs = [f2Fn, fvFn]"
    by (simp add: isCandidate_def indirectFuncs_def indirectCall_def callerFn_def h2Fn_def
        fvFn_def f1Fn_def f2Fn_def)
  have d: "copyUniversalToResult indirectCall indirectState = Inr indirectState"
    by (simp add: copyUniversalToResult_def indirectCall_def)
  have e: "constraintsOf (bindAll [f2Fn, fvFn] indirectCall indirectState)
     = Inr [AndersConstraint ADDR_OF 4 5 None, AndersConstraint ADDR_OF 6 7 None,
            AndersConstraint ADDR_OF 8 9 None,
            AndersConstraint COPY 10 18 None, AndersConstraint COPY 11 19 None,
            AndersConstraint COPY 14 18 None, AndersConstraint COPY 13 19 None]"
    by (simp add: constraintsOf_def addArgumentConstraintForCall_def getValueNodeFor_def
        getVarargNodeFor_def indirectState_simps emplace_back_def f2Fn_def fvFn_def
        indirectCall_def bytePtr_def)
  from indirect_call_candidates [OF a b, of "bareExternals packedLayout flatStructAnalyzer"] a b c d e
  show ?thesis
    by simp
qed


section \<open>The order of global initialisation and function bodies\<close>

text \<open>
  The table of modelled external routines is a parameter; what the order of the constraint
  sequence needs of it is that it only appends constraints, as everything in this file
  does.
\<close>

definition appendOnly :: "externals \<Rightarrow> bool" where
  "appendOnly X \<longleftrightarrow>
     (\<forall>cs s handled s'. addConstraintForExternalLibrary X cs s = Inr (handled, s') \<longrightarrow>
        prefix (constraints s) (constraints s'))"

lemma prefix_emplace_back: "prefix (constraints s) (constraints (emplace_back c s))"
  by (simp add: emplace_back_def)

lemma prefix_trans_emplace:
  "prefix (constraints (emplace_back c s)) xs \<Longrightarrow> prefix (constraints s) xs"
  by (simp add: emplace_back_def append_prefixD)

lemma init_prefix:
  "addGlobalInitializerConstraints SA n c s = Inr s' \<Longrightarrow> prefix (constraints s) (constraints s')"
  "initArrayOperands SA n cs s = Inr s' \<Longrightarrow> prefix (constraints s) (constraints s')"
  "initStructOperands SA n i cs s = Inr s' \<Longrightarrow> prefix (constraints s) (constraints s')"
proof (induction SA n c s and SA n cs s and SA n i cs s arbitrary: s' and s' and s'
    rule: addGlobalInitializerConstraints_initArrayOperands_initStructOperands.induct)
  case (1 SA objNode c s)
  show ?case
  proof (cases "isSingleValueType (getType c)")
    case True
    with "1.prems" show ?thesis
      by (auto simp: emplace_back_def split: if_splits sum.splits)
  next
    case sv: False
    show ?thesis
    proof (cases "isNullValue c")
      case True
      with sv "1.prems" show ?thesis
        by (auto simp: emplace_back_def)
    next
      case nv: False
      show ?thesis
      proof (cases "isUndefValue c")
        case True
        with sv nv "1.prems" show ?thesis by auto
      next
        case uv: False
        show ?thesis
        proof (cases c)
          case (ConstantArray t ops)
          with sv nv uv "1.prems" "1.IH"(1) [OF sv nv uv ConstantArray] show ?thesis
            by simp
        next
          case (ConstantStruct t ops)
          with sv nv uv "1.prems" "1.IH"(2) [OF sv nv uv ConstantStruct] show ?thesis
            by (auto split: option.splits)
        qed (use sv nv uv "1.prems" in auto)
      qed
    qed
  qed
next
  case (2 SA objNode s)
  then show ?case by simp
next
  case (3 SA objNode c cs s)
  from "3.prems" obtain s1 where
    a: "addGlobalInitializerConstraints SA objNode c s = Inr s1" and
    b: "initArrayOperands SA objNode cs s1 = Inr s'"
    by (auto split: sum.splits simp del: addGlobalInitializerConstraints.simps)
  from "3.IH"(1) [OF a] "3.IH"(2) [OF a b] show ?case
    by (rule prefix_order.trans)
next
  case (4 SA objNode i s)
  then show ?case by simp
next
  case (5 SA objNode i cv cs s)
  from "5.prems" obtain s1 where
    a: "addGlobalInitializerConstraints SA (getOffsetObjectNode objNode i) cv s = Inr s1" and
    b: "initStructOperands SA objNode (i + 1) cs s1 = Inr s'"
    by (auto split: sum.splits simp del: addGlobalInitializerConstraints.simps)
  from "5.IH"(1) [OF a] "5.IH"(2) [OF a b] show ?case
    by (rule prefix_order.trans)
qed

lemma initGlobals_prefix:
  "initGlobals SA gs s = Inr s' \<Longrightarrow> prefix (constraints s) (constraints s')"
proof (induction gs arbitrary: s)
  case Nil
  then show ?case by simp
next
  case (Cons g gs)
  show ?case
  proof (cases "getObjectNodeFor s (GlobalV (gname g))")
    case None
    with Cons show ?thesis by simp
  next
    case (Some gObj)
    show ?thesis
    proof (cases "definitiveInitializer g")
      case None
      with Some Cons.prems have
        "initGlobals SA gs (emplace_back (AndersConstraint COPY gObj getUniversalObjNode None) s) = Inr s'"
        by simp
      from Cons.IH [OF this] show ?thesis by (rule prefix_trans_emplace)
    next
      case (Some init)
      with \<open>getObjectNodeFor s (GlobalV (gname g)) = Some gObj\<close> Cons.prems obtain s1 where
        a: "addGlobalInitializerConstraints SA gObj init s = Inr s1" and
        b: "initGlobals SA gs s1 = Inr s'"
        by (auto split: sum.splits simp del: addGlobalInitializerConstraints.simps)
      from init_prefix(1) [OF a] Cons.IH [OF b] show ?thesis
        by (rule prefix_order.trans)
    qed
  qed
qed


lemma bindFormals_prefix:
  "bindFormals fn i fs as s = Inr (rest, s') \<Longrightarrow> prefix (constraints s) (constraints s')"
proof (induction fn i fs as s rule: bindFormals.induct)
  case (1 fn i actuals s)
  then show ?case by simp
next
  case (2 fn i formalTy fs s)
  then show ?case by simp
next
  case (3 fn i formalTy fs actual actualTy as s)
  then show ?case
    by (auto split: if_splits sum.splits intro: prefix_trans_emplace)
qed

lemma bindVarargs_prefix:
  "bindVarargs fn as s = Inr s' \<Longrightarrow> prefix (constraints s) (constraints s')"
proof (induction fn as s rule: bindVarargs.induct)
  case (1 fn s)
  then show ?case by simp
next
  case (2 fn actual actualTy as s)
  then show ?case
    by (auto split: if_splits sum.splits intro: prefix_trans_emplace)
qed

lemma addArgumentConstraintForCall_prefix:
  assumes "addArgumentConstraintForCall cs f s = Inr s'"
  shows "prefix (constraints s) (constraints s')"
proof -
  from assms obtain rest s1 where
    a: "bindFormals (fname f) 0 (formals f) (operands cs) s = Inr (rest, s1)" and
    b: "(if isVarArg f then bindVarargs (fname f) rest s1 else Inr s1) = Inr s'"
    by (auto simp: addArgumentConstraintForCall_def split: sum.splits prod.splits)
  from a have "prefix (constraints s) (constraints s1)"
    by (rule bindFormals_prefix)
  moreover from b have "prefix (constraints s1) (constraints s')"
    by (auto split: if_splits dest: bindVarargs_prefix)
  ultimately show ?thesis by (rule prefix_order.trans)
qed

lemma ruinActuals_prefix:
  "ruinActuals as s = Inr s' \<Longrightarrow> prefix (constraints s) (constraints s')"
proof (induction as s rule: ruinActuals.induct)
  case (1 s)
  then show ?case by simp
next
  case (2 actual actualTy as s)
  then show ?case
    by (auto split: sum.splits intro: prefix_trans_emplace)
qed

lemma copyUniversalToResult_prefix:
  "copyUniversalToResult cs s = Inr s' \<Longrightarrow> prefix (constraints s) (constraints s')"
  by (auto simp: copyUniversalToResult_def emplace_back_def split: if_splits sum.splits)

lemma bindCandidates_prefix:
  "bindCandidates fs cs s = Inr s' \<Longrightarrow> prefix (constraints s) (constraints s')"
proof (induction fs arbitrary: s)
  case Nil
  then show ?case by simp
next
  case (Cons f fs)
  show ?case
  proof (cases "getValueNodeFor s (FuncV (fname f)) = None
      \<or> (\<not> isVarArg f \<and> length (formals f) \<noteq> length (operands cs))")
    case True
    with Cons.prems have "bindCandidates fs cs s = Inr s'"
      by (auto split: option.splits)
    then show ?thesis by (rule Cons.IH)
  next
    case False
    with Cons.prems obtain s1 where
      a: "addArgumentConstraintForCall cs f s = Inr s1" and
      b: "bindCandidates fs cs s1 = Inr s'"
      by (auto split: option.splits sum.splits if_splits)
    from addArgumentConstraintForCall_prefix [OF a] Cons.IH [OF b] show ?thesis
      by (rule prefix_order.trans)
  qed
qed

lemma addConstraintForCall_prefix:
  assumes "appendOnly X" and "addConstraintForCall X moduleFuncs cs s = Inr s'"
  shows "prefix (constraints s) (constraints s')"
proof (cases "calledFunction cs")
  case None
  with assms(2) obtain s1 where
    a: "copyUniversalToResult cs s = Inr s1" and
    b: "bindCandidates moduleFuncs cs s1 = Inr s'"
    by (auto simp: addConstraintForCall_def split: sum.splits)
  from copyUniversalToResult_prefix [OF a] bindCandidates_prefix [OF b] show ?thesis
    by (rule prefix_order.trans)
next
  case (Some f)
  show ?thesis
  proof (cases "isDeclaration f \<or> isIntrinsic f")
    case True
    with Some assms(2) obtain handled s0 where
      e: "addConstraintForExternalLibrary X cs s = Inr (handled, s0)"
      by (auto simp: addConstraintForCall_def split: sum.splits)
    from assms(1) e have p0: "prefix (constraints s) (constraints s0)"
      by (auto simp: appendOnly_def)
    show ?thesis
    proof (cases handled)
      case True
      with Some \<open>isDeclaration f \<or> isIntrinsic f\<close> e assms(2) have "s' = s0"
        by (auto simp: addConstraintForCall_def)
      with p0 show ?thesis by simp
    next
      case False
      with Some \<open>isDeclaration f \<or> isIntrinsic f\<close> e assms(2) obtain s1 s2 where
        a: "copyUniversalToResult cs
              (s0\<lparr>errs := errs s0 @ [''Unresolved ext function: '' @ fname f]\<rparr>) = Inr s1" and
        b: "ruinActuals (operands cs) s1 = Inr s2" and
        c: "addArgumentConstraintForCall cs f s2 = Inr s'"
        by (auto simp: addConstraintForCall_def split: sum.splits)
      from copyUniversalToResult_prefix [OF a] have "prefix (constraints s0) (constraints s1)"
        by simp
      with p0 have "prefix (constraints s) (constraints s1)"
        by (rule prefix_order.trans)
      also note ruinActuals_prefix [OF b]
      also note addArgumentConstraintForCall_prefix [OF c]
      finally show ?thesis .
    qed
  next
    case False
    with Some assms(2) show ?thesis
      by (auto simp: addConstraintForCall_def split: sum.splits if_splits
          dest: addArgumentConstraintForCall_prefix prefix_trans_emplace)
  qed
qed


lemma copyIncoming_prefix:
  "copyIncoming dstIndex vs s = Inr s' \<Longrightarrow> prefix (constraints s) (constraints s')"
proof (induction dstIndex vs s rule: copyIncoming.induct)
  case (1 dstIndex s)
  then show ?case by simp
next
  case (2 dstIndex v t vs s)
  then show ?case
    by (auto split: sum.splits intro: prefix_trans_emplace)
qed

lemma constraints_createValueNode [simp]:
  "constraints (snd (createValueNode v s)) = constraints s"
  by (simp add: createValueNode_def split: option.splits)

lemma constraints_createObjectNode [simp]:
  "constraints (snd (createObjectNode v s)) = constraints s"
  by (simp add: createObjectNode_def split: option.splits)

lemma constraints_createReturnNode [simp]:
  "constraints (snd (createReturnNode f s)) = constraints s"
  by (simp add: createReturnNode_def split: option.splits)

lemma constraints_createVarargNode [simp]:
  "constraints (snd (createVarargNode f s)) = constraints s"
  by (simp add: createVarargNode_def split: option.splits)

lemma constraints_createArgNodes [simp]:
  "constraints (createArgNodes fn i ts s) = constraints s"
  by (induction fn i ts s rule: createArgNodes.induct) simp_all

lemma constraints_createInstNodes [simp]:
  "constraints (createInstNodes insts s) = constraints s"
  by (induction insts s rule: createInstNodes.induct) simp_all

lemma mallocSite_prefix:
  "(case found (getValueNodeFor s v) msg of
      Inl e \<Rightarrow> Inl e
    | Inr ptrIndex \<Rightarrow>
        (let (objIndex, s1) = createObjectNode v s
         in Inr (emplace_back (AndersConstraint ADDR_OF ptrIndex objIndex None) s1))) = Inr s' \<Longrightarrow>
   prefix (constraints s) (constraints s')"
  by (auto simp: emplace_back_def createObjectNode_def split: sum.splits option.splits)

lemma collectConstraintsForInstruction_prefix:
  assumes "appendOnly X"
    and "collectConstraintsForInstruction X moduleFuncs parent inst s = Inr s'"
  shows "prefix (constraints s) (constraints s')"
proof (cases "opcode inst")
  case Alloca
  with assms(2) show ?thesis
    by (auto simp: collectConstraintsForInstruction_def emplace_back_def createValueNode_def
        createObjectNode_def split: option.splits)
next
  case Call
  with assms(2) show ?thesis
    by (auto simp: collectConstraintsForInstruction_def split: if_splits
        dest: mallocSite_prefix addConstraintForCall_prefix [OF assms(1)])
next
  case Invoke
  with assms(2) show ?thesis
    by (auto simp: collectConstraintsForInstruction_def split: if_splits
        dest: mallocSite_prefix addConstraintForCall_prefix [OF assms(1)])
next
  case Ret
  with assms(2) show ?thesis
    by (auto simp: collectConstraintsForInstruction_def emplace_back_def
        split: if_splits sum.splits)
next
  case Load
  with assms(2) show ?thesis
    by (auto simp: collectConstraintsForInstruction_def emplace_back_def
        split: if_splits sum.splits)
next
  case Store
  with assms(2) show ?thesis
    by (auto simp: collectConstraintsForInstruction_def emplace_back_def
        split: if_splits sum.splits)
next
  case GetElementPtr
  with assms(2) show ?thesis
    by (auto simp: collectConstraintsForInstruction_def emplace_back_def
        split: if_splits sum.splits)
next
  case PHI
  with assms(2) show ?thesis
    by (auto simp: collectConstraintsForInstruction_def
        split: if_splits sum.splits dest: copyIncoming_prefix)
next
  case BitCast
  with assms(2) show ?thesis
    by (auto simp: collectConstraintsForInstruction_def emplace_back_def
        split: if_splits sum.splits)
next
  case IntToPtr
  with assms(2) show ?thesis
    by (auto simp: collectConstraintsForInstruction_def emplace_back_def
        split: if_splits sum.splits)
next
  case Select
  with assms(2) show ?thesis
    by (auto simp: collectConstraintsForInstruction_def emplace_back_def
        split: if_splits sum.splits)
next
  case VAArg
  with assms(2) show ?thesis
    by (auto simp: collectConstraintsForInstruction_def emplace_back_def
        split: if_splits sum.splits)
next
  case OtherOp
  with assms(2) show ?thesis
    by (auto simp: collectConstraintsForInstruction_def split: if_splits)
qed (use assms(2) in \<open>simp_all add: collectConstraintsForInstruction_def\<close>)

lemma collectBody_prefix:
  assumes "appendOnly X"
  shows "collectBody X moduleFuncs parent insts s = Inr s' \<Longrightarrow>
         prefix (constraints s) (constraints s')"
proof (induction insts arbitrary: s)
  case Nil
  then show ?case by simp
next
  case (Cons inst insts)
  from Cons.prems obtain s1 where
    a: "collectConstraintsForInstruction X moduleFuncs parent inst s = Inr s1" and
    b: "collectBody X moduleFuncs parent insts s1 = Inr s'"
    by (auto split: sum.splits)
  from collectConstraintsForInstruction_prefix [OF assms a] Cons.IH [OF b] show ?case
    by (rule prefix_order.trans)
qed

lemma collectFunctions_prefix:
  assumes "appendOnly X"
  shows "collectFunctions X moduleFuncs fl s = Inr s' \<Longrightarrow>
         prefix (constraints s) (constraints s')"
proof (induction fl arbitrary: s)
  case Nil
  then show ?case by simp
next
  case (Cons fb fl)
  obtain f body where fb: "fb = (f, body)" by (cases fb)
  show ?case
  proof (cases "isDeclaration f \<or> isIntrinsic f")
    case True
    with Cons.prems fb have "collectFunctions X moduleFuncs fl s = Inr s'" by auto
    then show ?thesis by (rule Cons.IH)
  next
    case False
    define s4 where "s4 = createInstNodes body
        (createArgNodes (fname f) 0 (formals f)
          (if isVarArg f
           then snd (createVarargNode (fname f)
                      (if isPointerTy (returnType f) then snd (createReturnNode (fname f) s) else s))
           else (if isPointerTy (returnType f) then snd (createReturnNode (fname f) s) else s)))"
    have c4: "constraints s4 = constraints s"
      by (simp add: s4_def)
    from Cons.prems fb False obtain s5 where
      a: "collectBody X moduleFuncs f body s4 = Inr s5" and
      b: "collectFunctions X moduleFuncs fl s5 = Inr s'"
      by (auto simp: s4_def Let_def split: sum.splits)
    from collectBody_prefix [OF assms a] Cons.IH [OF b] c4 show ?thesis
      by (auto intro: prefix_order.trans)
  qed
qed


text \<open>
  C4, as the code has it. \<^verbatim>\<open>collectConstraintsForGlobals\<close> runs before the loop over the
  functions, and its third loop initialises the globals: in the constraint sequence of a
  run, the constraints of the global initializers (\<open>inits\<close>) follow the seeds and the
  ADDR_OF constraints of the globals and address-taken functions, and every constraint
  generated from a function body (\<open>bodies\<close>) comes after them.
\<close>

theorem initializers_precede_bodies:
  assumes "appendOnly X" and "collectConstraints X M s0 = Inr s"
  shows "\<exists>sg si inits bodies.
           declareGlobals (theStructAnalyzer X) (getGlobalList M) (seedState s0) = Inr sg \<and>
           initGlobals (theStructAnalyzer X) (getGlobalList M)
             (declareFunctions (map fst (getFunctionList M)) sg) = Inr si \<and>
           collectFunctions X (map fst (getFunctionList M)) (getFunctionList M) si = Inr s \<and>
           constraints si = constraints (declareFunctions (map fst (getFunctionList M)) sg) @ inits \<and>
           constraints s =
             constraints (declareFunctions (map fst (getFunctionList M)) sg) @ inits @ bodies"
proof -
  from assms(2) obtain sg si where
    a: "declareGlobals (theStructAnalyzer X) (getGlobalList M) (seedState s0) = Inr sg" and
    b: "initGlobals (theStructAnalyzer X) (getGlobalList M)
          (declareFunctions (map fst (getFunctionList M)) sg) = Inr si" and
    c: "collectFunctions X (map fst (getFunctionList M)) (getFunctionList M) si = Inr s"
    by (auto simp: collectConstraints_def collectConstraintsForGlobals_def split: sum.splits)
  from initGlobals_prefix [OF b] obtain inits where
    i: "constraints si = constraints (declareFunctions (map fst (getFunctionList M)) sg) @ inits"
    by (auto simp: prefix_def)
  from collectFunctions_prefix [OF assms(1) c] obtain bodies where
    "constraints s = constraints si @ bodies"
    by (auto simp: prefix_def)
  with i have
    "constraints s = constraints (declareFunctions (map fst (getFunctionList M)) sg) @ inits @ bodies"
    by simp
  with a b c i show ?thesis by blast
qed

lemma orderProgram_run:
  "constraintsOf (collectConstraints (bareExternals packedLayout flatStructAnalyzer)
      orderProgram initialState)
     = Inr (seedConstraints @
         [AndersConstraint ADDR_OF 4 5 None,
          AndersConstraint COPY 5 getUniversalObjNode None,
          AndersConstraint ADDR_OF 6 7 None])"
  by (simp add: constraintsOf_def collectConstraints_def seedState_def
      collectConstraintsForGlobals_def orderProgram_def externGlobal_def allocaFn_def
      allocaInst_def bareExternals_def collectConstraintsForInstruction_def
      createValueNode_def createObjectNode_def emplace_back_def initialState_def
      seedConstraints_def getObjectNodeFor_def)

theorem initializers_precede_bodies_witness:
  "appendOnly (bareExternals packedLayout flatStructAnalyzer) \<and>
   (\<exists>s sg si.
      collectConstraints (bareExternals packedLayout flatStructAnalyzer) orderProgram initialState
        = Inr s \<and>
      declareGlobals flatStructAnalyzer (getGlobalList orderProgram) (seedState initialState) = Inr sg \<and>
      initGlobals flatStructAnalyzer (getGlobalList orderProgram)
        (declareFunctions (map fst (getFunctionList orderProgram)) sg) = Inr si \<and>
      constraints (declareFunctions (map fst (getFunctionList orderProgram)) sg)
        = seedConstraints @ [AndersConstraint ADDR_OF 4 5 None] \<and>
      constraints si = constraints (declareFunctions (map fst (getFunctionList orderProgram)) sg)
        @ [AndersConstraint COPY 5 getUniversalObjNode None] \<and>
      constraints s = constraints (declareFunctions (map fst (getFunctionList orderProgram)) sg)
        @ [AndersConstraint COPY 5 getUniversalObjNode None]
        @ [AndersConstraint ADDR_OF 6 7 None])"
proof -
  let ?X = "bareExternals packedLayout flatStructAnalyzer"
  have a: "appendOnly ?X"
    by (auto simp: appendOnly_def bareExternals_def unmodelled_def)
  obtain s where run: "collectConstraints ?X orderProgram initialState = Inr s"
    and cs: "constraints s = seedConstraints @
         [AndersConstraint ADDR_OF 4 5 None,
          AndersConstraint COPY 5 getUniversalObjNode None,
          AndersConstraint ADDR_OF 6 7 None]"
    using orderProgram_run
    by (cases "collectConstraints ?X orderProgram initialState") (auto simp: constraintsOf_def)
  from initializers_precede_bodies [OF a run] obtain sg si inits bodies where
    g: "declareGlobals (theStructAnalyzer ?X) (getGlobalList orderProgram) (seedState initialState)
          = Inr sg" and
    i: "initGlobals (theStructAnalyzer ?X) (getGlobalList orderProgram)
          (declareFunctions (map fst (getFunctionList orderProgram)) sg) = Inr si" and
    ci: "constraints si
          = constraints (declareFunctions (map fst (getFunctionList orderProgram)) sg) @ inits" and
    cb: "constraints s
          = constraints (declareFunctions (map fst (getFunctionList orderProgram)) sg) @ inits @ bodies"
    by blast
  have sa: "theStructAnalyzer ?X = flatStructAnalyzer"
    by (simp add: bareExternals_def)
  from g have cg: "constraints (declareFunctions (map fst (getFunctionList orderProgram)) sg)
        = seedConstraints @ [AndersConstraint ADDR_OF 4 5 None]"
    by (auto simp: sa orderProgram_def externGlobal_def allocaFn_def seedState_def
        createValueNode_def createObjectNode_def emplace_back_def initialState_def
        seedConstraints_def)
  from g i have "constraints si = seedConstraints @
         [AndersConstraint ADDR_OF 4 5 None, AndersConstraint COPY 5 getUniversalObjNode None]"
    by (auto simp: sa orderProgram_def externGlobal_def allocaFn_def seedState_def
        createValueNode_def createObjectNode_def emplace_back_def initialState_def
        seedConstraints_def getObjectNodeFor_def)
  with ci cg have inits: "inits = [AndersConstraint COPY 5 getUniversalObjNode None]"
    by simp
  from cb cs cg inits have "bodies = [AndersConstraint ADDR_OF 6 7 None]"
    by simp
  with a run g i ci cb cg inits sa show ?thesis
    by auto
qed


text \<open>
  C4 as claimed (every global-initializer constraint after every constraint of a function
  body) fails: for \<^verbatim>\<open>@g\<close> and \<^verbatim>\<open>@main\<close> the conservative COPY from the Universal Object
  into the object of \<^verbatim>\<open>@g\<close> (node 5) precedes the ADDR_OF of the stack allocation in
  \<^verbatim>\<open>@main\<close> (nodes 6 and 7).
\<close>

theorem initializers_after_bodies_counterexample:
  "constraintsOf (collectConstraints (bareExternals packedLayout flatStructAnalyzer)
      orderProgram initialState)
     = Inr (seedConstraints @
         [AndersConstraint ADDR_OF 4 5 None,
          AndersConstraint COPY 5 getUniversalObjNode None,
          AndersConstraint ADDR_OF 6 7 None]) \<and>
   constraintsOf (collectConstraints (bareExternals packedLayout flatStructAnalyzer)
      orderProgram initialState)
     \<noteq> Inr (seedConstraints @
         [AndersConstraint ADDR_OF 4 5 None,
          AndersConstraint ADDR_OF 6 7 None,
          AndersConstraint COPY 5 getUniversalObjNode None])"
  by (simp add: constraintsOf_def collectConstraints_def seedState_def
      collectConstraintsForGlobals_def orderProgram_def externGlobal_def allocaFn_def
      allocaInst_def bareExternals_def collectConstraintsForInstruction_def
      createValueNode_def createObjectNode_def emplace_back_def initialState_def
      seedConstraints_def getObjectNodeFor_def)

end
